theory Spec2Isabelle
  imports Main "HOL-Library.Word" "HOL-Library.Signed_Division"
begin

unbundle bit_operations_syntax

section \<open>Data model of \<open>rplidar_cpp_diagnostic.cpp\<close>\<close>

text \<open>
  The development embeds the POSIX branch (\<open>#else\<close>) of the diagnostic; the Windows
  branch has the same functions with the same control flow around other system calls.
  Everything the program does to the outside world is explicit: the operating system is a
  script of the values its calls return, the calls made are appended to a trace, and the
  two output streams (\<open>std::cout\<close> and the report file) are lists of the operands
  inserted with \<open><<\<close>. The terminal configuration calls (\<open>tcgetattr\<close>,
  \<open>cfsetispeed\<close>, \<open>tcsetattr\<close>, \<open>tcflush\<close>), whose results the code
  ignores, are one trace event. The opening of the report file can fail; the code does
  not look at its outcome, and a stream that is not open drops what is inserted. A call
  of \<open>finalizeLogs\<close> is itself an event of the trace (\<open>Ev_finalize\<close>), so that the
  calls can be counted. The C++ \<open>int\<close>s that hold a baud rate, a byte count, an attempt number or
  a point total stay far below \<open>2^31\<close> (a read returns at most 2048 bytes, the loop
  makes at most 20 reads) and are integers here; the two counters of the summary, which
  grow with the number of results, are 32-bit words.
\<close>

type_synonym byte = "8 word"

text \<open>
  One operand of a stream insertion: a string, an integer printed in decimal, an integer
  printed under \<open>std::hex\<close>, and a duration printed under \<open>std::fixed\<close> with the
  given precision. Durations are kept as clock ticks: the conversion to a \<open>double\<close> of
  milliseconds is floating point and is not modelled.
\<close>

datatype tok = Str string | Dec int | Hex int | Fix nat int

definition endl :: tok where
  "endl = Str [CHR 0x0A]"

definition dq :: string where
  "dq = [CHR 0x22]"

definition nl :: string where
  "nl = [CHR 0x0A]"

text \<open>The UTF-8 bytes of the three marks the console messages use.\<close>

definition check_mark :: string where
  "check_mark = [CHR 0xE2, CHR 0x9C, CHR 0x93]"

definition cross_mark :: string where
  "cross_mark = [CHR 0xE2, CHR 0x9C, CHR 0x97]"

definition warn_mark :: string where
  "warn_mark = [CHR 0xE2, CHR 0x9A, CHR 0xA0]"

record TestResult =
  port :: string
  baudrate :: int
  raw_communication :: bool
  device_info_success :: bool
  health_check_success :: bool
  scan_start_success :: bool
  scan_points_received :: int
  error_message :: string
  test_duration_ms :: int

text \<open>
  What one \<open>select\<close>/\<open>read\<close> pair of \<open>readData\<close> can meet: nothing readable within
  the timeout, a failing \<open>read\<close>, or bytes (of which \<open>read\<close> takes at most
  \<open>max_length\<close>).
\<close>

datatype rd = Rd_none | Rd_error | Rd_bytes "byte list"

text \<open>
  The environment of one run: the local time that \<open>std::localtime\<close> breaks the clock
  into (the fields of \<open>std::tm\<close> that the format reads, as naturals: \<open>tm_year\<close> counts
  from 1900 and \<open>tm_mon\<close> from 0), whether the report file can be opened,
  the device paths that exist, and the
  values the successive calls of \<open>open\<close> (\<open>None\<close> is \<open>-1\<close>), \<open>write\<close>,
  \<open>select\<close>/\<open>read\<close> and the clock return. A script that runs out answers with a failed
  open, a failed write, a timeout and tick 0.
\<close>

record tm =
  tm_year :: nat
  tm_mon :: nat
  tm_mday :: nat
  tm_hour :: nat
  tm_min :: nat
  tm_sec :: nat

record world =
  w_localtime :: tm
  w_log_open :: bool
  w_files :: "string list"
  w_open :: "nat option list"
  w_write :: "int list"
  w_read :: "rd list"
  w_clock :: "int list"

datatype event =
    Ev_open string "nat option"
  | Ev_configure int
  | Ev_close int
  | Ev_write "byte list" int
  | Ev_read nat nat
  | Ev_sleep nat
  | Ev_log_open string bool
  | Ev_finalize
  | Ev_log_close

record ofstream =
  is_open :: bool
  content :: "tok list"

text \<open>The object \<open>RPLidarDiagnostic\<close> (its three members) together with the world.\<close>

record state =
  env :: world
  trace :: "event list"
  cout :: "tok list"
  serial_fd :: int
  log_file :: ofstream
  results :: "TestResult list"

section \<open>Primitive effects\<close>

definition emit :: "event \<Rightarrow> state \<Rightarrow> state" where
  "emit e s = s\<lparr>trace := trace s @ [e]\<rparr>"

definition cout_put :: "tok list \<Rightarrow> state \<Rightarrow> state" where
  "cout_put ts s = s\<lparr>cout := cout s @ ts\<rparr>"

text \<open>An insertion into a file stream that is not open writes nothing.\<close>

definition log_put :: "tok list \<Rightarrow> state \<Rightarrow> state" where
  "log_put ts s =
     (if is_open (log_file s)
      then s\<lparr>log_file := (log_file s)\<lparr>content := content (log_file s) @ ts\<rparr>\<rparr>
      else s)"

definition sleep_for :: "nat \<Rightarrow> state \<Rightarrow> state" where
  "sleep_for ms s = emit (Ev_sleep ms) s"

text \<open>
  The clock and the three system calls of the transport: each takes the next answer of
  its script; \<open>open\<close> and \<open>write\<close> append their event to the trace.
\<close>

definition now :: "state \<Rightarrow> int \<times> state" where
  "now s =
     (case w_clock (env s) of
        [] \<Rightarrow> (0, s)
      | t # ts \<Rightarrow> (t, s\<lparr>env := (env s)\<lparr>w_clock := ts\<rparr>\<rparr>))"

definition os_open :: "string \<Rightarrow> state \<Rightarrow> int \<times> state" where
  "os_open p s =
     (case w_open (env s) of
        [] \<Rightarrow> (- 1, emit (Ev_open p None) s)
      | r # rs \<Rightarrow>
          ((case r of None \<Rightarrow> - 1 | Some n \<Rightarrow> int n),
           emit (Ev_open p r) (s\<lparr>env := (env s)\<lparr>w_open := rs\<rparr>\<rparr>)))"

definition os_write :: "byte list \<Rightarrow> state \<Rightarrow> int \<times> state" where
  "os_write data s =
     (case w_write (env s) of
        [] \<Rightarrow> (- 1, emit (Ev_write data (- 1)) s)
      | r # rs \<Rightarrow> (r, emit (Ev_write data r) (s\<lparr>env := (env s)\<lparr>w_write := rs\<rparr>\<rparr>)))"

definition os_read :: "state \<Rightarrow> rd \<times> state" where
  "os_read s =
     (case w_read (env s) of
        [] \<Rightarrow> (Rd_none, s)
      | r # rs \<Rightarrow> (r, s\<lparr>env := (env s)\<lparr>w_read := rs\<rparr>\<rparr>))"

section \<open>Transport\<close>

text \<open>
  \<open>findSerialPorts\<close> tries the thirty device paths in order and keeps those that
  exist; \<open>to_string\<close> is \<open>std::to_string\<close> on the numbers it is given.
  \<open>readData\<close> returns the count and the part of the buffer that the read filled: the
  code looks at no byte beyond the count.
\<close>

fun digit_char :: "nat \<Rightarrow> char" where
  "digit_char n = char_of (48 + n)"

fun to_string :: "nat \<Rightarrow> string" where
  "to_string n = (if n < 10 then [digit_char n] else to_string (n div 10) @ [digit_char (n mod 10)])"

definition dev_prefixes :: "string list" where
  "dev_prefixes = [''/dev/ttyUSB'', ''/dev/ttyACM'', ''/dev/ttyS'']"

definition candidate_ports :: "string list" where
  "candidate_ports = concat (map (\<lambda>prefix. map (\<lambda>i. prefix @ to_string i) [0..<10]) dev_prefixes)"

definition findSerialPorts :: "state \<Rightarrow> string list" where
  "findSerialPorts s = filter (\<lambda>p. p \<in> set (w_files (env s))) candidate_ports"

definition closeSerial :: "state \<Rightarrow> state" where
  "closeSerial s =
     (if serial_fd s \<noteq> - 1
      then (emit (Ev_close (serial_fd s)) s)\<lparr>serial_fd := - 1\<rparr>
      else s)"

definition speed_of :: "int \<Rightarrow> int" where
  "speed_of b =
     (if b = 115200 then 115200
      else if b = 230400 then 230400
      else if b = 460800 then 460800
      else if b = 921600 then 921600
      else if b = 256000 then 256000
      else 115200)"

definition openSerial :: "string \<Rightarrow> int \<Rightarrow> state \<Rightarrow> bool \<times> state" where
  "openSerial p b s0 =
     (let s1 = closeSerial s0;
          (fd, s2) = os_open p s1;
          s3 = s2\<lparr>serial_fd := fd\<rparr>
      in if serial_fd s3 = - 1 then (False, s3)
         else (True, emit (Ev_configure (speed_of b)) s3))"

definition writeData :: "byte list \<Rightarrow> state \<Rightarrow> bool \<times> state" where
  "writeData data s = (let (r, s1) = os_write data s in (r = int (length data), s1))"

definition readData :: "nat \<Rightarrow> nat \<Rightarrow> state \<Rightarrow> (int \<times> byte list) \<times> state" where
  "readData max_length timeout_ms s =
     (let (r, s1) = os_read (emit (Ev_read max_length timeout_ms) s)
      in case r of
           Rd_none \<Rightarrow> ((0, []), s1)
         | Rd_error \<Rightarrow> ((- 1, []), s1)
         | Rd_bytes bs \<Rightarrow> ((int (length (take max_length bs)), take max_length bs), s1))"

section \<open>The probes of one cell: \<open>testPort\<close>\<close>

definition reset_cmd :: "byte list" where
  "reset_cmd = [0xA5, 0x40]"

definition info_cmd :: "byte list" where
  "info_cmd = [0xA5, 0x50]"

definition health_cmd :: "byte list" where
  "health_cmd = [0xA5, 0x52]"

definition scan_cmd :: "byte list" where
  "scan_cmd = [0xA5, 0x20]"

definition stop_cmd :: "byte list" where
  "stop_cmd = [0xA5, 0x25]"

text \<open>Test 1 (source lines 260 to 273): the raw communication test.\<close>

definition test_raw :: "TestResult \<Rightarrow> state \<Rightarrow> TestResult \<times> state" where
  "test_raw result s0 =
     (let s1 = cout_put [Str ''  Testing raw communication...'', endl] s0;
          (ok, s2) = writeData reset_cmd s1
      in if ok then
           (let s3 = sleep_for 100 s2;
                ((bytes, buffer), s4) = readData 256 500 s3
            in if bytes > 0 then
                 (result\<lparr>raw_communication := True\<rparr>,
                  cout_put [Str (''    '' @ check_mark @ '' Raw communication successful (''),
                            Dec bytes, Str '' bytes)'', endl] s4)
               else
                 (result,
                  cout_put [Str (''    '' @ cross_mark @ '' No response to reset command''), endl] s4))
         else (result, s2))"

text \<open>
  Test 2 (source lines 275 to 301): the device info request. The bytes printed are
  \<open>buffer[7]\<close>, \<open>buffer[8]\<close>, \<open>buffer[9]\<close> and \<open>buffer[10]\<close>, each converted to
  \<open>int\<close>.
\<close>

definition info_fields :: "byte list \<Rightarrow> tok list" where
  "info_fields buffer =
     [Str ''      Model: '', Dec (uint (buffer ! 7)), endl,
      Str ''      Firmware: '', Dec (uint (buffer ! 8)), Str ''.'', Dec (uint (buffer ! 9)), endl,
      Str ''      Hardware: '', Dec (uint (buffer ! 10)), endl]"

definition test_info :: "TestResult \<Rightarrow> state \<Rightarrow> TestResult \<times> state" where
  "test_info result s0 =
     (let s1 = cout_put [Str ''  Testing device info request...'', endl] s0;
          (ok, s2) = writeData info_cmd s1
      in if ok then
           (let s3 = sleep_for 100 s2;
                ((bytes, buffer), s4) = readData 256 1000 s3
            in if bytes \<ge> 7 then
                 (if buffer ! 0 = 0xA5 \<and> buffer ! 1 = 0x5A then
                    (let s5 = cout_put [Str (''    '' @ check_mark @ '' Device info received (''),
                                        Dec bytes, Str '' bytes)'', endl] s4
                     in (result\<lparr>device_info_success := True\<rparr>,
                         if bytes \<ge> 20 then cout_put (info_fields buffer) s5 else s5))
                  else
                    (result,
                     cout_put [Str (''    '' @ cross_mark @ '' Invalid response header: ''),
                               Hex (uint (buffer ! 0)), Str '' '', Hex (uint (buffer ! 1)), endl] s4))
               else
                 (result,
                  cout_put [Str (''    '' @ cross_mark @ '' Insufficient response (''),
                            Dec bytes, Str '' bytes)'', endl] s4))
         else (result, s2))"

text \<open>
  Test 3 (source lines 303 to 324): the health check. \<open>error_code\<close> is the
  \<open>uint16_t\<close> that \<open>(buffer[9] << 8) | buffer[8]\<close> converts to.
\<close>

definition error_code :: "byte list \<Rightarrow> 16 word" where
  "error_code buffer = push_bit 8 (ucast (buffer ! 9)) OR ucast (buffer ! 8)"

definition health_fields :: "byte list \<Rightarrow> tok list" where
  "health_fields buffer =
     [Str (''    '' @ check_mark @ '' Health check successful''), endl,
      Str ''      Status: '', Dec (uint (buffer ! 7)), endl,
      Str ''      Error code: '', Dec (uint (error_code buffer)), endl]"

definition test_health :: "TestResult \<Rightarrow> state \<Rightarrow> TestResult \<times> state" where
  "test_health result s0 =
     (let s1 = cout_put [Str ''  Testing health check...'', endl] s0;
          (ok, s2) = writeData health_cmd s1
      in if ok then
           (let s3 = sleep_for 100 s2;
                ((bytes, buffer), s4) = readData 256 1000 s3
            in if bytes \<ge> 10 then
                 (if buffer ! 0 = 0xA5 \<and> buffer ! 1 = 0x5A then
                    (result\<lparr>health_check_success := True\<rparr>, cout_put (health_fields buffer) s4)
                  else
                    (result,
                     cout_put [Str (''    '' @ cross_mark @ '' Invalid health response header''), endl] s4))
               else
                 (result,
                  cout_put [Str (''    '' @ cross_mark @ '' Health check failed (''),
                            Dec bytes, Str '' bytes)'', endl] s4))
         else (result, s2))"

text \<open>
  Test 4 (source lines 326 to 364): the scan. \<open>scan_loop\<close> is the \<open>while\<close> loop; it
  carries \<open>attempts\<close>, \<open>total_points\<close> and the result, and returns them when the loop
  is left, through its condition or through \<open>break\<close>. \<open>bytes / 5\<close> is C++ division,
  which truncates.
\<close>

definition max_attempts :: nat where
  "max_attempts = 20"

definition read_msg :: "int \<Rightarrow> int \<Rightarrow> tok list" where
  "read_msg bytes points_in_buffer =
     [Str ''    Read '', Dec bytes, Str '' bytes ('', Dec points_in_buffer,
      Str '' potential points)'', endl]"

definition no_data_msg :: "nat \<Rightarrow> tok list" where
  "no_data_msg attempts =
     [Str ''    No data received (attempt '', Dec (int attempts + 1), Str '')'', endl]"

function scan_loop :: "nat \<Rightarrow> int \<Rightarrow> TestResult \<Rightarrow> state \<Rightarrow> (int \<times> TestResult) \<times> state" where
  "scan_loop attempts total_points result s =
     (if attempts < max_attempts then
        (let ((bytes, buffer), s1) = readData 2048 200 s
         in if bytes > 0 then
              (let points_in_buffer = bytes sdiv 5;
                   new_total = total_points + points_in_buffer;
                   s2 = cout_put (read_msg bytes points_in_buffer) s1
               in if new_total > 10 then ((new_total, result\<lparr>scan_start_success := True\<rparr>), s2)
                  else scan_loop (attempts + 1) new_total result (sleep_for 100 s2))
            else
              scan_loop (attempts + 1) total_points result
                (sleep_for 100 (cout_put (no_data_msg attempts) s1)))
      else ((total_points, result), s))"
  by pat_completeness auto
termination
  by (relation "measure (\<lambda>(attempts, total_points, result, s). max_attempts - attempts)") auto

declare scan_loop.simps [simp del]
declare to_string.simps [simp del]

definition test_scan :: "TestResult \<Rightarrow> state \<Rightarrow> TestResult \<times> state" where
  "test_scan result s0 =
     (let s1 = cout_put [Str ''  Testing scan start...'', endl] s0;
          (ok, s2) = writeData scan_cmd s1
      in if ok then
           (let s3 = sleep_for 500 s2;
                ((total_points, r1), s4) = scan_loop 0 0 result s3;
                r2 = r1\<lparr>scan_points_received := total_points\<rparr>
            in if scan_start_success r2 then
                 (r2, cout_put [Str (''    '' @ check_mark @ '' Scan data received (''),
                                Dec total_points, Str '' points)'', endl] s4)
               else
                 (r2, cout_put [Str (''    '' @ cross_mark @ '' No valid scan data received''), endl] s4))
         else (result, s2))"

text \<open>
  \<open>testPort\<close>. The field \<open>test_duration_ms\<close> is not initialised by the source and is
  assigned on both paths before the result is returned; the model starts it at 0.
\<close>

definition testPort :: "string \<Rightarrow> int \<Rightarrow> state \<Rightarrow> TestResult \<times> state" where
  "testPort p b s0 =
     (let result = \<lparr>port = p, baudrate = b, raw_communication = False,
                     device_info_success = False, health_check_success = False,
                     scan_start_success = False, scan_points_received = 0,
                     error_message = [], test_duration_ms = 0\<rparr>;
          (start_time, s1) = now s0;
          s2 = cout_put [Str ''Testing '', Str p, Str '' at '', Dec b, Str '' baud...'', endl] s1;
          (opened, s3) = openSerial p b s2
      in if \<not> opened then
           (let (end_time, s4) = now s3
            in (result\<lparr>error_message := ''Failed to open serial port'',
                        test_duration_ms := end_time - start_time\<rparr>, s4))
         else
           (let (r1, s4) = test_raw result s3;
                (r2, s5) = test_info r1 s4;
                (r3, s6) = test_health r2 s5;
                (r4, s7) = test_scan r3 s6;
                (stop_ok, s8) = writeData stop_cmd s7;
                s9 = sleep_for 100 s8;
                s10 = closeSerial s9;
                (end_time, s11) = now s10
            in (r4\<lparr>test_duration_ms := end_time - start_time\<rparr>, s11)))"

section \<open>The report and the matrix\<close>

definition bool_str :: "bool \<Rightarrow> string" where
  "bool_str b = (if b then ''true'' else ''false'')"

definition json_entry :: "TestResult \<Rightarrow> tok list" where
  "json_entry result =
     [Str (''    {'' @ nl),
      Str (''      '' @ dq @ ''port'' @ dq @ '': '' @ dq), Str (port result), Str (dq @ '','' @ nl),
      Str (''      '' @ dq @ ''baudrate'' @ dq @ '': ''), Dec (baudrate result), Str ('','' @ nl),
      Str (''      '' @ dq @ ''raw_communication'' @ dq @ '': ''),
      Str (bool_str (raw_communication result)), Str ('','' @ nl),
      Str (''      '' @ dq @ ''device_info_success'' @ dq @ '': ''),
      Str (bool_str (device_info_success result)), Str ('','' @ nl),
      Str (''      '' @ dq @ ''health_check_success'' @ dq @ '': ''),
      Str (bool_str (health_check_success result)), Str ('','' @ nl),
      Str (''      '' @ dq @ ''scan_start_success'' @ dq @ '': ''),
      Str (bool_str (scan_start_success result)), Str ('','' @ nl),
      Str (''      '' @ dq @ ''scan_points_received'' @ dq @ '': ''),
      Dec (scan_points_received result), Str ('','' @ nl),
      Str (''      '' @ dq @ ''error_message'' @ dq @ '': '' @ dq),
      Str (error_message result), Str (dq @ '','' @ nl),
      Str (''      '' @ dq @ ''test_duration_ms'' @ dq @ '': ''),
      Fix 2 (test_duration_ms result), Str nl,
      Str ''    }'']"

definition writeResultToJson :: "TestResult \<Rightarrow> state \<Rightarrow> state" where
  "writeResultToJson result s = log_put (json_entry result) s"

text \<open>The first loop of \<open>printSummary\<close>: it stops at the first working result.\<close>

fun first_working :: "TestResult list \<Rightarrow> TestResult option" where
  "first_working [] = None"
| "first_working (r # rs) = (if scan_start_success r then Some r else first_working rs)"

definition partial_line :: "TestResult \<Rightarrow> tok list" where
  "partial_line result =
     (if device_info_success result \<or> health_check_success result \<or> raw_communication result
      then [Str ''  '', Str (port result), Str '' @ '', Dec (baudrate result), Str '': '']
           @ (if device_info_success result then [Str ''DeviceInfo ''] else [])
           @ (if health_check_success result then [Str ''Health ''] else [])
           @ (if raw_communication result then [Str ''RawComm ''] else [])
           @ [endl]
      else [])"

definition printSummary :: "state \<Rightarrow> state" where
  "printSummary s0 =
     (let s1 = cout_put [Str ''=== DIAGNOSTIC SUMMARY ==='', endl] s0;
          s2 = (case first_working (results s1) of
                  Some result \<Rightarrow>
                    cout_put [Str (check_mark @ '' WORKING CONFIGURATION FOUND:''), endl,
                              Str ''  Port: '', Str (port result), endl,
                              Str ''  Baudrate: '', Dec (baudrate result), endl,
                              Str ''  Scan points: '', Dec (scan_points_received result), endl] s1
                | None \<Rightarrow>
                    cout_put ([Str (cross_mark @ '' NO WORKING CONFIGURATIONS FOUND''), endl,
                               Str (nl @ ''Partial successes:''), endl]
                              @ concat (map partial_line (results s1))) s1)
      in cout_put [Str (nl @ ''Results saved to: rplidar_diagnostic_results.json''), endl] s2)"

definition baudrates :: "int list" where
  "baudrates = [115200, 256000, 230400, 460800, 921600]"

text \<open>The body of the inner loop of \<open>runFullDiagnostic\<close>; it returns \<open>first_result\<close>.\<close>

definition cell :: "string \<Rightarrow> int \<Rightarrow> bool \<Rightarrow> state \<Rightarrow> bool \<times> state" where
  "cell p b first_result s0 =
     (let (result, s1) = testPort p b s0;
          s2 = s1\<lparr>results := results s1 @ [result]\<rparr>;
          s3 = (if \<not> first_result then log_put [Str ('','' @ nl)] s2 else s2);
          s4 = writeResultToJson result s3;
          s5 = cout_put [Str ''  Result: ''] s4;
          s6 = (if scan_start_success result then
                  cout_put [Str (check_mark @ '' WORKING - Scan successful with ''),
                            Dec (scan_points_received result), Str '' points'', endl] s5
                else if device_info_success result \<or> health_check_success result then
                  cout_put [Str (warn_mark @ '' PARTIAL - Device responds but scanning failed''), endl] s5
                else if raw_communication result then
                  cout_put [Str (warn_mark @ '' BASIC - Raw communication only''), endl] s5
                else
                  cout_put [Str (cross_mark @ '' FAILED - ''), Str (error_message result), endl] s5)
      in (False,
          cout_put [Str ''  Duration: '', Fix 1 (test_duration_ms result), Str ''ms'', endl, endl] s6))"

fun baud_loop :: "string \<Rightarrow> int list \<Rightarrow> bool \<Rightarrow> state \<Rightarrow> bool \<times> state" where
  "baud_loop p [] first_result s = (first_result, s)"
| "baud_loop p (b # bs) first_result s =
     (let (first_result', s') = cell p b first_result s in baud_loop p bs first_result' s')"

fun port_loop :: "string list \<Rightarrow> bool \<Rightarrow> state \<Rightarrow> bool \<times> state" where
  "port_loop [] first_result s = (first_result, s)"
| "port_loop (p # ps) first_result s =
     (let (first_result', s') = baud_loop p baudrates first_result s in port_loop ps first_result' s')"

definition runFullDiagnostic :: "state \<Rightarrow> state" where
  "runFullDiagnostic s0 =
     (let s1 = cout_put [Str ''=== RPLIDAR C++ Hardware Diagnostic ==='', endl] s0;
          ports = findSerialPorts s1
      in if ports = [] then cout_put [Str ''No serial ports found!'', endl] s1
         else
           (let s2 = cout_put ([Str ''Found ports: ''] @ concat (map (\<lambda>p. [Str p, Str '' '']) ports)
                               @ [endl, endl]) s1;
                (first_result, s3) = port_loop ports True s2
            in printSummary s3))"

text \<open>
  The loop of \<open>finalizeLogs\<close>. Its two counters are C++ \<open>int\<close>s: 32-bit words, printed
  as signed numbers.
\<close>

fun count_configs :: "TestResult list \<Rightarrow> 32 word \<times> 32 word \<Rightarrow> 32 word \<times> 32 word" where
  "count_configs [] (working_configs, partial_configs) = (working_configs, partial_configs)"
| "count_configs (result # rs) (working_configs, partial_configs) =
     (if scan_start_success result then count_configs rs (working_configs + 1, partial_configs)
      else if device_info_success result \<or> health_check_success result \<or> raw_communication result
      then count_configs rs (working_configs, partial_configs + 1)
      else count_configs rs (working_configs, partial_configs))"

definition summary_block :: "int \<Rightarrow> int \<Rightarrow> int \<Rightarrow> tok list" where
  "summary_block n_total n_working n_partial =
     [Str (nl @ ''  ],'' @ nl),
      Str (''  '' @ dq @ ''summary'' @ dq @ '': {'' @ nl),
      Str (''    '' @ dq @ ''total_tests'' @ dq @ '': ''), Dec n_total, Str ('','' @ nl),
      Str (''    '' @ dq @ ''working_configurations'' @ dq @ '': ''), Dec n_working, Str ('','' @ nl),
      Str (''    '' @ dq @ ''partial_configurations'' @ dq @ '': ''), Dec n_partial, Str nl,
      Str (''  }'' @ nl),
      Str (''}'' @ nl)]"

definition log_close :: "state \<Rightarrow> state" where
  "log_close s =
     (if is_open (log_file s)
      then (emit Ev_log_close s)\<lparr>log_file := (log_file s)\<lparr>is_open := False\<rparr>\<rparr>
      else s)"

definition finalizeLogs :: "state \<Rightarrow> state" where
  "finalizeLogs s0 =
     (let s = emit Ev_finalize s0;
          (working_configs, partial_configs) = count_configs (results s) (0, 0)
      in log_close
           (log_put (summary_block (int (length (results s))) (sint working_configs)
                       (sint partial_configs)) s))"

text \<open>
  \<open>std::put_time\<close> with the format \<open>%Y-%m-%d %H:%M:%S\<close>: the year in decimal, the other
  fields in two digits.
\<close>

definition two_digits :: "nat \<Rightarrow> string" where
  "two_digits n = (if n < 10 then ''0'' @ to_string n else to_string n)"

definition put_time :: "tm \<Rightarrow> string" where
  "put_time t =
     to_string (1900 + tm_year t) @ ''-'' @ two_digits (tm_mon t + 1) @ ''-'' @ two_digits (tm_mday t)
       @ '' '' @ two_digits (tm_hour t) @ '':'' @ two_digits (tm_min t) @ '':'' @ two_digits (tm_sec t)"

definition getCurrentTimeString :: "state \<Rightarrow> string" where
  "getCurrentTimeString s = put_time (w_localtime (env s))"

definition report_header :: "string \<Rightarrow> tok list" where
  "report_header ts =
     [Str (''{'' @ nl @ ''  '' @ dq @ ''timestamp'' @ dq @ '': '' @ dq), Str ts, Str (dq @ '','' @ nl),
      Str (''  '' @ dq @ ''test_results'' @ dq @ '': ['' @ nl)]"

text \<open>The constructor, the destructor and \<open>main\<close>.\<close>

definition RPLidarDiagnostic :: "world \<Rightarrow> state" where
  "RPLidarDiagnostic w =
     (let s0 = \<lparr>env = w,
                 trace = [Ev_log_open ''rplidar_diagnostic_results.json'' (w_log_open w)],
                 cout = [], serial_fd = - 1,
                 log_file = \<lparr>is_open = w_log_open w, content = []\<rparr>, results = []\<rparr>
      in log_put (report_header (getCurrentTimeString s0)) s0)"

definition destructor :: "state \<Rightarrow> state" where
  "destructor s = finalizeLogs (closeSerial s)"

definition main :: "world \<Rightarrow> state" where
  "main w = destructor (runFullDiagnostic (RPLidarDiagnostic w))"

section \<open>Notions the statements use\<close>

text \<open>One iteration of the scan loop, seen from the state it starts in.\<close>

definition scan_bytes :: "state \<Rightarrow> int" where
  "scan_bytes s = fst (fst (readData 2048 200 s))"

definition scan_hit_state :: "state \<Rightarrow> state" where
  "scan_hit_state s =
     cout_put (read_msg (scan_bytes s) (scan_bytes s sdiv 5)) (snd (readData 2048 200 s))"

definition scan_next_state :: "nat \<Rightarrow> state \<Rightarrow> state" where
  "scan_next_state a s =
     sleep_for 100
       (if scan_bytes s > 0 then scan_hit_state s
        else cout_put (no_data_msg a) (snd (readData 2048 200 s)))"

text \<open>
  The heuristic of the specification: a read that received \<open>n\<close> bytes counts for
  \<open>floor (n / 5)\<close> points. A read of the scan loop receives at most 2048 bytes, and none
  when it times out or fails.
\<close>

definition bytes_received :: "rd \<Rightarrow> nat" where
  "bytes_received r = (case r of Rd_bytes bs \<Rightarrow> min 2048 (length bs) | Rd_none \<Rightarrow> 0 | Rd_error \<Rightarrow> 0)"

definition heuristic_points :: "rd \<Rightarrow> int" where
  "heuristic_points r = int (bytes_received r div 5)"

definition running_total :: "rd list \<Rightarrow> nat \<Rightarrow> int" where
  "running_total rs n = sum_list (map heuristic_points (take n rs))"

definition is_read :: "event \<Rightarrow> bool" where
  "is_read e = (case e of Ev_read m t \<Rightarrow> True | _ \<Rightarrow> False)"

definition is_write :: "event \<Rightarrow> bool" where
  "is_write e = (case e of Ev_write d r \<Rightarrow> True | _ \<Rightarrow> False)"

text \<open>The read a script answers next: a timeout when it has run out.\<close>

definition head_read :: "rd list \<Rightarrow> rd" where
  "head_read rs = (case rs of [] \<Rightarrow> Rd_none | r # _ \<Rightarrow> r)"

text \<open>What the scan loop, entered with \<open>a\<close> attempts made and a total of \<open>t\<close>, has done when it returns \<open>X\<close>.\<close>

definition scan_post :: "nat \<Rightarrow> int \<Rightarrow> TestResult \<Rightarrow> state \<Rightarrow> (int \<times> TestResult) \<times> state \<Rightarrow> bool" where
  "scan_post a t r s X =
     (\<exists>n tr. a + n \<le> max_attempts \<and> trace (snd X) = trace s @ tr \<and>
        length (filter is_read tr) = n \<and> \<not> list_ex is_write tr \<and>
        fst (fst X) = t + running_total (w_read (env s)) n \<and>
        (\<forall>m<n. t + running_total (w_read (env s)) m \<le> 10) \<and>
        snd (fst X) = r\<lparr>scan_start_success := (scan_start_success r \<or> 10 < fst (fst X))\<rparr> \<and>
        (fst (fst X) \<le> 10 \<longrightarrow> a + n = max_attempts))"

text \<open>
  The count and the buffer contents \<open>readData\<close> returns for one answer of the
  environment, and the next answers of the environment seen from a state: whether the next
  \<open>write\<close> accepts all \<open>n\<close> bytes, and the bytes the next read delivers.
\<close>

definition rd_count :: "nat \<Rightarrow> rd \<Rightarrow> int" where
  "rd_count m r =
     (case r of Rd_none \<Rightarrow> 0 | Rd_error \<Rightarrow> - 1 | Rd_bytes bs \<Rightarrow> int (length (take m bs)))"

definition rd_buffer :: "nat \<Rightarrow> rd \<Rightarrow> byte list" where
  "rd_buffer m r = (case r of Rd_none \<Rightarrow> [] | Rd_error \<Rightarrow> [] | Rd_bytes bs \<Rightarrow> take m bs)"

definition write_ret :: "state \<Rightarrow> int" where
  "write_ret s = (case w_write (env s) of [] \<Rightarrow> - 1 | k # ks \<Rightarrow> k)"

definition write_accepted :: "nat \<Rightarrow> state \<Rightarrow> bool" where
  "write_accepted n s = (write_ret s = int n)"

definition next_open :: "state \<Rightarrow> nat option" where
  "next_open s = (case w_open (env s) of [] \<Rightarrow> None | r # rs \<Rightarrow> r)"

definition response :: "nat \<Rightarrow> state \<Rightarrow> byte list" where
  "response m s = (if write_accepted 2 s then rd_buffer m (head_read (w_read (env s))) else [])"

definition valid_header :: "byte list \<Rightarrow> bool" where
  "valid_header bs = (2 \<le> length bs \<and> bs ! 0 = 0xA5 \<and> bs ! 1 = 0x5A)"

text \<open>The clock reading number \<open>i\<close> of a script.\<close>

definition clock_at :: "int list \<Rightarrow> nat \<Rightarrow> int" where
  "clock_at ts i = (if i < length ts then ts ! i else 0)"

text \<open>Events of the probes: writes, reads and delays.\<close>

definition is_probe_ev :: "event \<Rightarrow> bool" where
  "is_probe_ev e =
     (case e of Ev_write d r \<Rightarrow> True | Ev_read m t \<Rightarrow> True | Ev_sleep n \<Rightarrow> True | _ \<Rightarrow> False)"

definition is_log_ev :: "event \<Rightarrow> bool" where
  "is_log_ev e =
     (case e of Ev_log_open f ok \<Rightarrow> True | Ev_finalize \<Rightarrow> True | Ev_log_close \<Rightarrow> True
      | _ \<Rightarrow> False)"

text \<open>\<open>s'\<close> was reached from \<open>s\<close> by events that all satisfy \<open>P\<close>.\<close>

definition extends_by :: "(event \<Rightarrow> bool) \<Rightarrow> state \<Rightarrow> state \<Rightarrow> bool" where
  "extends_by P s s' = (\<exists>tr. trace s' = trace s @ tr \<and> list_all P tr)"

text \<open>
  The parts of \<open>testPort\<close>: the result it starts from, the opening of the port, and
  the four probes in sequence.
\<close>

definition blank_result :: "string \<Rightarrow> int \<Rightarrow> TestResult" where
  "blank_result p b =
     \<lparr>port = p, baudrate = b, raw_communication = False, device_info_success = False,
      health_check_success = False, scan_start_success = False, scan_points_received = 0,
      error_message = [], test_duration_ms = 0\<rparr>"

definition open_port :: "string \<Rightarrow> int \<Rightarrow> state \<Rightarrow> bool \<times> state" where
  "open_port p b s =
     openSerial p b
       (cout_put [Str ''Testing '', Str p, Str '' at '', Dec b, Str '' baud...'', endl] (snd (now s)))"

definition probes :: "TestResult \<Rightarrow> state \<Rightarrow> TestResult \<times> state" where
  "probes r s =
     (let (r1, s1) = test_raw r s;
          (r2, s2) = test_info r1 s1;
          (r3, s3) = test_health r2 s2
      in test_scan r3 s3)"

text \<open>
  The result and the state with which \<open>testPort\<close>, the port open, enters the scan
  probe: what the first three probes leave.
\<close>

definition pre_scan :: "string \<Rightarrow> int \<Rightarrow> state \<Rightarrow> TestResult \<times> state" where
  "pre_scan p b s =
     (let (r1, s1) = test_raw (blank_result p b) (snd (open_port p b s));
          (r2, s2) = test_info r1 s1
      in test_health r2 s2)"

text \<open>
  The descriptors open after a sequence of events, and the check that an event sequence,
  started with the descriptors \<open>fds\<close> open, never has more than one open.
\<close>

definition step_fds :: "int list \<Rightarrow> event \<Rightarrow> int list" where
  "step_fds fds e =
     (case e of
        Ev_open p r \<Rightarrow> (case r of None \<Rightarrow> fds | Some n \<Rightarrow> int n # fds)
      | Ev_close fd \<Rightarrow> remove1 fd fds
      | _ \<Rightarrow> fds)"

fun single_open :: "int list \<Rightarrow> event list \<Rightarrow> bool" where
  "single_open fds [] = (length fds \<le> 1)"
| "single_open fds (e # es) = (length fds \<le> 1 \<and> single_open (step_fds fds e) es)"

definition fd_inv :: "state \<Rightarrow> bool" where
  "fd_inv s =
     (single_open [] (trace s) \<and>
      foldl step_fds [] (trace s) = (if serial_fd s = - 1 then [] else [serial_fd s]))"

text \<open>
  The layout of the report document: the entries, separated by a comma and a newline,
  between the header and the summary block. \<open>first_result\<close> says whether an entry is
  still to be the first one.
\<close>

fun entries :: "bool \<Rightarrow> TestResult list \<Rightarrow> tok list" where
  "entries first_result [] = []"
| "entries first_result (r # rs) =
     (if first_result then [] else [Str ('','' @ nl)]) @ json_entry r @ entries False rs"

definition is_working :: "TestResult \<Rightarrow> bool" where
  "is_working r = scan_start_success r"

definition is_partial :: "TestResult \<Rightarrow> bool" where
  "is_partial r =
     (\<not> scan_start_success r \<and>
      (device_info_success r \<or> health_check_success r \<or> raw_communication r))"

definition document :: "string \<Rightarrow> TestResult list \<Rightarrow> tok list" where
  "document ts rs =
     report_header ts @ entries True rs
     @ summary_block (int (length rs)) (int (length (filter is_working rs)))
         (int (length (filter is_partial rs)))"

definition cell_of :: "TestResult \<Rightarrow> string \<times> int" where
  "cell_of r = (port r, baudrate r)"

definition matrix :: "string list \<Rightarrow> (string \<times> int) list" where
  "matrix ports = concat (map (\<lambda>p. map (\<lambda>b. (p, b)) baudrates) ports)"

text \<open>
  What it is for the report to be structurally valid: read as text, it is one JSON
  document. The check below is a JSON recogniser, written without reference to the
  functions that write the report. It reads the document symbol by symbol: a character
  of an inserted string, or a number as a whole (an integer printed in decimal and a
  finite \<open>double\<close> printed in fixed notation are JSON numbers; a number printed under
  \<open>std::hex\<close> is not). It keeps the stack of the objects and arrays that are open and
  the place in the grammar, and accepts when one value has been read completely. It
  accepts less than all of JSON: it refuses every backslash in a string.
\<close>

datatype sym = Ch char | Number | Hexnum

fun syms_of :: "tok \<Rightarrow> sym list" where
  "syms_of (Str s) = map Ch s"
| "syms_of (Dec n) = [Number]"
| "syms_of (Hex n) = [Hexnum]"
| "syms_of (Fix k d) = [Number]"

definition symbols :: "tok list \<Rightarrow> sym list" where
  "symbols ts = concat (map syms_of ts)"

datatype frame = Obj | Arr

datatype mode =
    Value
  | First_key
  | First_item
  | After
  | Key
  | Colon
  | In_str bool
  | Lit string
  | Done
  | Fail

type_synonym jstate = "mode \<times> frame list"

definition is_ws :: "sym \<Rightarrow> bool" where
  "is_ws x = (x = Ch CHR '' '' \<or> x = Ch (CHR 0x0A) \<or> x = Ch (CHR 0x0D) \<or> x = Ch (CHR 0x09))"

definition after_value :: "frame list \<Rightarrow> jstate" where
  "after_value stk = (if stk = [] then (Done, []) else (After, stk))"

definition start_value :: "frame list \<Rightarrow> sym \<Rightarrow> jstate" where
  "start_value stk x =
     (if x = Number then after_value stk
      else if x = Ch CHR ''{'' then (First_key, Obj # stk)
      else if x = Ch CHR ''['' then (First_item, Arr # stk)
      else if x = Ch (CHR 0x22) then (In_str False, stk)
      else if x = Ch CHR ''t'' then (Lit ''rue'', stk)
      else if x = Ch CHR ''f'' then (Lit ''alse'', stk)
      else if x = Ch CHR ''n'' then (Lit ''ull'', stk)
      else (Fail, stk))"

definition close_frame :: "frame \<Rightarrow> frame list \<Rightarrow> jstate" where
  "close_frame f stk =
     (case stk of
        [] \<Rightarrow> (Fail, [])
      | g # rest \<Rightarrow> if g = f then after_value rest else (Fail, stk))"

definition plain_char :: "char \<Rightarrow> bool" where
  "plain_char c = (c \<noteq> CHR 0x22 \<and> c \<noteq> CHR 0x5C \<and> (32::nat) \<le> of_char c)"

definition jstep :: "jstate \<Rightarrow> sym \<Rightarrow> jstate" where
  "jstep st x =
     (let m = fst st; stk = snd st in
      case m of
        Fail \<Rightarrow> (Fail, stk)
      | In_str k \<Rightarrow>
          (case x of
             Ch c \<Rightarrow>
               if c = CHR 0x22 then (if k then (Colon, stk) else after_value stk)
               else if plain_char c then (In_str k, stk)
               else (Fail, stk)
           | Number \<Rightarrow> (Fail, stk)
           | Hexnum \<Rightarrow> (Fail, stk))
      | Lit cs \<Rightarrow>
          (case cs of
             [] \<Rightarrow> (Fail, stk)
           | d # ds \<Rightarrow>
               if x = Ch d then (if ds = [] then after_value stk else (Lit ds, stk))
               else (Fail, stk))
      | Value \<Rightarrow> if is_ws x then (Value, stk) else start_value stk x
      | First_item \<Rightarrow>
          if is_ws x then (First_item, stk)
          else if x = Ch CHR '']'' then close_frame Arr stk
          else start_value stk x
      | First_key \<Rightarrow>
          if is_ws x then (First_key, stk)
          else if x = Ch CHR ''}'' then close_frame Obj stk
          else if x = Ch (CHR 0x22) then (In_str True, stk)
          else (Fail, stk)
      | Key \<Rightarrow>
          if is_ws x then (Key, stk)
          else if x = Ch (CHR 0x22) then (In_str True, stk)
          else (Fail, stk)
      | Colon \<Rightarrow>
          if is_ws x then (Colon, stk)
          else if x = Ch CHR '':'' then (Value, stk)
          else (Fail, stk)
      | After \<Rightarrow>
          if is_ws x then (After, stk)
          else if x = Ch CHR '','' then
            (case stk of
               [] \<Rightarrow> (Fail, stk)
             | Obj # rest \<Rightarrow> (Key, stk)
             | Arr # rest \<Rightarrow> (Value, stk))
          else if x = Ch CHR ''}'' then close_frame Obj stk
          else if x = Ch CHR '']'' then close_frame Arr stk
          else (Fail, stk)
      | Done \<Rightarrow> if is_ws x then (Done, stk) else (Fail, stk))"

definition json_valid :: "sym list \<Rightarrow> bool" where
  "json_valid xs = (foldl jstep (Value, []) xs = (Done, []))"

text \<open>A text that can stand between the quotes of a JSON string as it is.\<close>

definition plain_text :: "string \<Rightarrow> bool" where
  "plain_text s = list_all plain_char s"

text \<open>
  Concrete environments, for running the model: a device on \<open>/dev/ttyUSB0\<close> that
  answers every probe of the first cell (a raw echo of 4 bytes, a device info response of
  27 bytes, a health response with status 0 and error code \<open>0x1234\<close>, then 25 bytes
  for each scan read), the same machine with nothing behind the port
  (\<open>silent_world\<close>), and with a port that opens and accepts no write
  (\<open>mute_world\<close>).
  \<open>probe_world bs\<close> accepts one command and answers it with \<open>bs\<close>;
  \<open>info_response_b\<close> is \<open>info_response\<close> with other bytes from offset 11 on.
\<close>

definition info_response :: "byte list" where
  "info_response = [0xA5, 0x5A, 0x14, 0, 0, 0, 0x04, 0x18, 0x1D, 0x01, 0x07] @ replicate 16 0x11"

definition health_response :: "byte list" where
  "health_response = [0xA5, 0x5A, 0x03, 0, 0, 0, 0x06, 0, 0x34, 0x12]"

definition demo_world :: world where
  "demo_world =
     \<lparr>w_localtime = \<lparr>tm_year = 124, tm_mon = 0, tm_mday = 1, tm_hour = 0, tm_min = 0, tm_sec = 0\<rparr>,
      w_log_open = True, w_files = [''/dev/ttyUSB0''],
      w_open = [Some 3],
      w_write = [2, 2, 2, 2, 2],
      w_read = [Rd_bytes [1, 2, 3, 4], Rd_bytes info_response, Rd_bytes health_response,
                Rd_bytes (replicate 25 0), Rd_bytes (replicate 25 0), Rd_bytes (replicate 25 0)],
      w_clock = [1000, 5000]\<rparr>"

definition silent_world :: world where
  "silent_world =
     \<lparr>w_localtime = \<lparr>tm_year = 124, tm_mon = 0, tm_mday = 1, tm_hour = 0, tm_min = 0, tm_sec = 0\<rparr>,
      w_log_open = True, w_files = [''/dev/ttyUSB0''],
      w_open = [], w_write = [], w_read = [], w_clock = [1000, 5000]\<rparr>"


definition probe_world :: "byte list \<Rightarrow> world" where
  "probe_world bs =
     \<lparr>w_localtime = \<lparr>tm_year = 124, tm_mon = 0, tm_mday = 1, tm_hour = 0, tm_min = 0, tm_sec = 0\<rparr>,
      w_log_open = True, w_files = [], w_open = [], w_write = [2],
      w_read = [Rd_bytes bs],
      w_clock = []\<rparr>"

definition scan_world :: world where
  "scan_world =
     \<lparr>w_localtime = \<lparr>tm_year = 124, tm_mon = 0, tm_mday = 1, tm_hour = 0, tm_min = 0, tm_sec = 0\<rparr>,
      w_log_open = True, w_files = [''/dev/ttyUSB0''],
      w_open = [Some 3], w_write = [2, 2],
      w_read = [Rd_bytes (replicate 25 0), Rd_bytes (replicate 25 0), Rd_bytes (replicate 25 0)],
      w_clock = []\<rparr>"

definition mute_world :: world where
  "mute_world =
     \<lparr>w_localtime = \<lparr>tm_year = 124, tm_mon = 0, tm_mday = 1, tm_hour = 0, tm_min = 0, tm_sec = 0\<rparr>,
      w_log_open = True, w_files = [''/dev/ttyUSB0''],
      w_open = [Some 3], w_write = [], w_read = [], w_clock = []\<rparr>"

definition empty_world :: world where
  "empty_world =
     \<lparr>w_localtime = \<lparr>tm_year = 124, tm_mon = 0, tm_mday = 1, tm_hour = 0, tm_min = 0, tm_sec = 0\<rparr>,
      w_log_open = True, w_files = [],
      w_open = [], w_write = [], w_read = [], w_clock = []\<rparr>"

text \<open>A machine with no device, on which the report file cannot be opened.\<close>

definition locked_world :: world where
  "locked_world =
     \<lparr>w_localtime = \<lparr>tm_year = 124, tm_mon = 0, tm_mday = 1, tm_hour = 0, tm_min = 0, tm_sec = 0\<rparr>,
      w_log_open = False, w_files = [],
      w_open = [], w_write = [], w_read = [], w_clock = []\<rparr>"

section \<open>Frame lemmas\<close>

lemma emit_frame [simp]:
  "env (emit e s) = env s" "cout (emit e s) = cout s" "serial_fd (emit e s) = serial_fd s"
  "log_file (emit e s) = log_file s" "results (emit e s) = results s"
  "trace (emit e s) = trace s @ [e]"
  by (simp_all add: emit_def)

lemma cout_put_frame [simp]:
  "env (cout_put ts s) = env s" "trace (cout_put ts s) = trace s"
  "serial_fd (cout_put ts s) = serial_fd s" "log_file (cout_put ts s) = log_file s"
  "results (cout_put ts s) = results s" "cout (cout_put ts s) = cout s @ ts"
  by (simp_all add: cout_put_def)

lemma log_put_frame [simp]:
  "env (log_put ts s) = env s" "trace (log_put ts s) = trace s"
  "serial_fd (log_put ts s) = serial_fd s" "cout (log_put ts s) = cout s"
  "results (log_put ts s) = results s" "is_open (log_file (log_put ts s)) = is_open (log_file s)"
  by (simp_all add: log_put_def)

lemma sleep_for_frame [simp]:
  "env (sleep_for n s) = env s" "cout (sleep_for n s) = cout s"
  "serial_fd (sleep_for n s) = serial_fd s" "log_file (sleep_for n s) = log_file s"
  "results (sleep_for n s) = results s" "trace (sleep_for n s) = trace s @ [Ev_sleep n]"
  by (simp_all add: sleep_for_def)

lemma now_frame [simp]:
  "trace (snd (now s)) = trace s" "cout (snd (now s)) = cout s"
  "serial_fd (snd (now s)) = serial_fd s" "log_file (snd (now s)) = log_file s"
  "results (snd (now s)) = results s"
  by (simp_all add: now_def split: list.splits)

lemma writeData_frame [simp]:
  "cout (snd (writeData d s)) = cout s" "serial_fd (snd (writeData d s)) = serial_fd s"
  "log_file (snd (writeData d s)) = log_file s" "results (snd (writeData d s)) = results s"
  by (simp_all add: writeData_def os_write_def split_beta split: list.splits)

lemma readData_frame [simp]:
  "cout (snd (readData m t s)) = cout s" "serial_fd (snd (readData m t s)) = serial_fd s"
  "log_file (snd (readData m t s)) = log_file s" "results (snd (readData m t s)) = results s"
  "trace (snd (readData m t s)) = trace s @ [Ev_read m t]"
  by (simp_all add: readData_def os_read_def split_beta split: list.splits rd.splits)

lemma closeSerial_frame [simp]:
  "env (closeSerial s) = env s" "cout (closeSerial s) = cout s"
  "log_file (closeSerial s) = log_file s" "results (closeSerial s) = results s"
  "serial_fd (closeSerial s) = - 1"
  by (simp_all add: closeSerial_def)

lemma openSerial_frame [simp]:
  "cout (snd (openSerial p b s)) = cout s"
  "log_file (snd (openSerial p b s)) = log_file s" "results (snd (openSerial p b s)) = results s"
  by (simp_all add: openSerial_def os_open_def split_beta Let_def split: list.splits)

lemma test_raw_frame [simp]:
  "serial_fd (snd (test_raw r s)) = serial_fd s"
  "log_file (snd (test_raw r s)) = log_file s" "results (snd (test_raw r s)) = results s"
  by (simp_all add: test_raw_def split_beta Let_def)

lemma test_info_frame [simp]:
  "serial_fd (snd (test_info r s)) = serial_fd s"
  "log_file (snd (test_info r s)) = log_file s" "results (snd (test_info r s)) = results s"
  by (simp_all add: test_info_def split_beta Let_def)

lemma test_health_frame [simp]:
  "serial_fd (snd (test_health r s)) = serial_fd s"
  "log_file (snd (test_health r s)) = log_file s" "results (snd (test_health r s)) = results s"
  by (simp_all add: test_health_def split_beta Let_def)

lemma RPLidarDiagnostic_simps [simp]:
  "env (RPLidarDiagnostic w) = w" "serial_fd (RPLidarDiagnostic w) = - 1"
  "results (RPLidarDiagnostic w) = []"
  "trace (RPLidarDiagnostic w) = [Ev_log_open ''rplidar_diagnostic_results.json'' (w_log_open w)]"
  "cout (RPLidarDiagnostic w) = []"
  "log_file (RPLidarDiagnostic w) =
     \<lparr>is_open = w_log_open w,
      content = (if w_log_open w then report_header (put_time (w_localtime w)) else [])\<rparr>"
  by (simp_all add: RPLidarDiagnostic_def log_put_def getCurrentTimeString_def Let_def)

lemma worlds_log_open [simp]:
  "w_log_open demo_world" "w_log_open silent_world" "w_log_open scan_world"
  "w_log_open empty_world" "w_log_open (probe_world bs)" "w_log_open mute_world"
  by (simp_all add: demo_world_def silent_world_def scan_world_def empty_world_def probe_world_def
      mute_world_def)

section \<open>The scan loop\<close>

lemma scan_loop_unfold:
  "scan_loop a t r s =
     (if a < max_attempts then
        (if scan_bytes s > 0 \<and> t + scan_bytes s sdiv 5 > 10
         then ((t + scan_bytes s sdiv 5, r\<lparr>scan_start_success := True\<rparr>), scan_hit_state s)
         else scan_loop (Suc a) (if scan_bytes s > 0 then t + scan_bytes s sdiv 5 else t) r
                (scan_next_state a s))
      else ((t, r), s))"
  by (subst scan_loop.simps)
     (simp add: split_beta Let_def scan_bytes_def scan_hit_state_def scan_next_state_def)

lemma scan_hit_state_frame [simp]:
  "serial_fd (scan_hit_state s) = serial_fd s" "log_file (scan_hit_state s) = log_file s"
  "results (scan_hit_state s) = results s"
  "trace (scan_hit_state s) = trace s @ [Ev_read 2048 200]"
  by (simp_all add: scan_hit_state_def)

lemma scan_next_state_frame [simp]:
  "serial_fd (scan_next_state a s) = serial_fd s" "log_file (scan_next_state a s) = log_file s"
  "results (scan_next_state a s) = results s"
  "trace (scan_next_state a s) = trace s @ [Ev_read 2048 200, Ev_sleep 100]"
  by (simp_all add: scan_next_state_def)

lemma scan_loop_induct_rule:
  assumes a_done: "\<And>a t r s. \<not> a < max_attempts \<Longrightarrow> P a t r s ((t, r), s)"
    and a_hit: "\<And>a t r s. a < max_attempts \<Longrightarrow> scan_bytes s > 0 \<Longrightarrow> t + scan_bytes s sdiv 5 > 10 \<Longrightarrow>
               P a t r s ((t + scan_bytes s sdiv 5, r\<lparr>scan_start_success := True\<rparr>), scan_hit_state s)"
    and a_more: "\<And>a t r s t'. a < max_attempts \<Longrightarrow> \<not> (scan_bytes s > 0 \<and> t + scan_bytes s sdiv 5 > 10) \<Longrightarrow>
               t' = (if scan_bytes s > 0 then t + scan_bytes s sdiv 5 else t) \<Longrightarrow>
               P (Suc a) t' r (scan_next_state a s) (scan_loop (Suc a) t' r (scan_next_state a s)) \<Longrightarrow>
               P a t r s (scan_loop (Suc a) t' r (scan_next_state a s))"
  shows "P a t r s (scan_loop a t r s)"
proof (induction "max_attempts - a" arbitrary: a t r s)
  case 0
  then have ge: "\<not> a < max_attempts" by simp
  then have "scan_loop a t r s = ((t, r), s)" by (subst scan_loop_unfold) simp
  then show ?case using a_done [OF ge, of t r s] by simp
next
  case (Suc n)
  then have lt: "a < max_attempts" and n: "n = max_attempts - Suc a" by simp_all
  show ?case
  proof (cases "scan_bytes s > 0 \<and> t + scan_bytes s sdiv 5 > 10")
    case True
    then have "scan_loop a t r s =
        ((t + scan_bytes s sdiv 5, r\<lparr>scan_start_success := True\<rparr>), scan_hit_state s)"
      using lt by (subst scan_loop_unfold) simp
    then show ?thesis using a_hit [OF lt, of s t r] True by simp
  next
    case False
    define t' where "t' = (if scan_bytes s > 0 then t + scan_bytes s sdiv 5 else t)"
    have "P (Suc a) t' r (scan_next_state a s) (scan_loop (Suc a) t' r (scan_next_state a s))"
      by (rule Suc.hyps(1) [OF n])
    then have "P a t r s (scan_loop (Suc a) t' r (scan_next_state a s))"
      by (rule a_more [OF lt False t'_def])
    moreover have "scan_loop a t r s = scan_loop (Suc a) t' r (scan_next_state a s)"
      using lt False unfolding t'_def by (subst scan_loop_unfold) auto
    ultimately show ?thesis by simp
  qed
qed

lemma scan_loop_frame [simp]:
  "serial_fd (snd (scan_loop a t r s)) = serial_fd s"
  "log_file (snd (scan_loop a t r s)) = log_file s"
  "results (snd (scan_loop a t r s)) = results s"
proof -
  have "serial_fd (snd (scan_loop a t r s)) = serial_fd s \<and>
        log_file (snd (scan_loop a t r s)) = log_file s \<and>
        results (snd (scan_loop a t r s)) = results s"
    by (rule scan_loop_induct_rule) simp_all
  then show "serial_fd (snd (scan_loop a t r s)) = serial_fd s"
  "log_file (snd (scan_loop a t r s)) = log_file s"
  "results (snd (scan_loop a t r s)) = results s" by simp_all
qed

lemma sdiv_pos: "0 < k \<Longrightarrow> k sdiv 5 = k div (5::int)"
  by (simp add: signed_divide_int_def)

lemma scan_points_head:
  "(if scan_bytes s > 0 then scan_bytes s sdiv 5 else 0) = heuristic_points (head_read (w_read (env s)))"
  by (auto simp: scan_bytes_def readData_def os_read_def head_read_def heuristic_points_def
      bytes_received_def sdiv_pos zdiv_int min_def split: list.splits rd.splits)

lemma scan_next_state_reads [simp]:
  "w_read (env (scan_next_state a s)) = tl (w_read (env s))"
  by (simp add: scan_next_state_def scan_hit_state_def readData_def os_read_def split_beta
      split: list.splits rd.splits)

lemma running_total_0 [simp]: "running_total rs 0 = 0"
  by (simp add: running_total_def)

lemma running_total_Suc:
  "running_total rs (Suc n) = heuristic_points (head_read rs) + running_total (tl rs) n"
  by (cases rs) (simp_all add: running_total_def head_read_def heuristic_points_def bytes_received_def)

lemma scan_loop_char:
  "a \<le> max_attempts \<longrightarrow> t \<le> 10 \<longrightarrow> scan_post a t r s (scan_loop a t r s)"
proof (rule scan_loop_induct_rule)
  fix a t r s
  assume "\<not> a < max_attempts"
  then show "a \<le> max_attempts \<longrightarrow> t \<le> 10 \<longrightarrow> scan_post a t r s ((t, r), s)"
    by (auto simp: scan_post_def)
next
  fix a :: nat and t r s
  assume lt: "a < max_attempts" and pos: "0 < scan_bytes s" and big: "10 < t + scan_bytes s sdiv 5"
  have pts: "scan_bytes s sdiv 5 = running_total (w_read (env s)) 1"
    using scan_points_head [of s] pos by (simp add: running_total_Suc)
  show "a \<le> max_attempts \<longrightarrow> t \<le> 10 \<longrightarrow>
        scan_post a t r s ((t + scan_bytes s sdiv 5, r\<lparr>scan_start_success := True\<rparr>), scan_hit_state s)"
    unfolding scan_post_def
    apply (intro impI)
    apply (rule exI [of _ 1], rule exI [of _ "[Ev_read 2048 200]"])
    using lt big pts by (simp add: is_read_def is_write_def)
next
  fix a :: nat and t r s t'
  assume lt: "a < max_attempts"
    and no: "\<not> (0 < scan_bytes s \<and> 10 < t + scan_bytes s sdiv 5)"
    and t': "t' = (if 0 < scan_bytes s then t + scan_bytes s sdiv 5 else t)"
    and IH: "Suc a \<le> max_attempts \<longrightarrow> t' \<le> 10 \<longrightarrow>
        scan_post (Suc a) t' r (scan_next_state a s) (scan_loop (Suc a) t' r (scan_next_state a s))"
  let ?X = "scan_loop (Suc a) t' r (scan_next_state a s)"
  show "a \<le> max_attempts \<longrightarrow> t \<le> 10 \<longrightarrow> scan_post a t r s ?X"
  proof (intro impI)
    assume t10: "t \<le> 10"
    have t'_eq: "t' = t + heuristic_points (head_read (w_read (env s)))"
      using scan_points_head [of s] t' by (simp split: if_splits)
    have t'10: "t' \<le> 10" using no t' t10 by (auto split: if_splits)
    have "scan_post (Suc a) t' r (scan_next_state a s) ?X"
      using IH lt t'10 by simp
    then obtain n tr where
      n: "Suc a + n \<le> max_attempts"
      and tr0: "trace (snd ?X) = trace (scan_next_state a s) @ tr"
      and cnt: "length (filter is_read tr) = n" and nw: "\<not> list_ex is_write tr"
      and tot0: "fst (fst ?X) = t' + running_total (w_read (env (scan_next_state a s))) n"
      and below0: "\<forall>m<n. t' + running_total (w_read (env (scan_next_state a s))) m \<le> 10"
      and res: "snd (fst ?X) = r\<lparr>scan_start_success := (scan_start_success r \<or> 10 < fst (fst ?X))\<rparr>"
      and full: "fst (fst ?X) \<le> 10 \<longrightarrow> Suc a + n = max_attempts"
      unfolding scan_post_def by blast
    have tr: "trace (snd ?X) = trace s @ [Ev_read 2048 200, Ev_sleep 100] @ tr"
      using tr0 by simp
    have tot: "fst (fst ?X) = t' + running_total (tl (w_read (env s))) n"
      using tot0 by simp
    have below: "\<forall>m<n. t' + running_total (tl (w_read (env s))) m \<le> 10"
      using below0 by simp
    have below': "\<forall>m<Suc n. t + running_total (w_read (env s)) m \<le> 10"
    proof (intro allI impI)
      fix m assume "m < Suc n"
      show "t + running_total (w_read (env s)) m \<le> 10"
      proof (cases m)
        case 0 then show ?thesis using t10 by simp
      next
        case (Suc k)
        then have "k < n" using \<open>m < Suc n\<close> by simp
        then have "t' + running_total (tl (w_read (env s))) k \<le> 10" using below by blast
        then show ?thesis using Suc t'_eq by (simp add: running_total_Suc)
      qed
    qed
    show "scan_post a t r s ?X"
      unfolding scan_post_def
      apply (rule exI [of _ "Suc n"], rule exI [of _ "[Ev_read 2048 200, Ev_sleep 100] @ tr"])
      using n tr cnt nw tot below' res full t'_eq
      by (simp add: running_total_Suc is_read_def is_write_def)
  qed
qed

section \<open>The probes\<close>

lemma writeData_fst: "fst (writeData d s) = write_accepted (length d) s"
  by (simp add: writeData_def os_write_def write_accepted_def write_ret_def split_beta
      split: list.splits)

lemma writeData_trace_eq [simp]:
  "trace (snd (writeData d s)) = trace s @ [Ev_write d (write_ret s)]"
  by (simp add: writeData_def os_write_def write_ret_def split_beta split: list.splits)

lemma writeData_reads [simp]: "w_read (env (snd (writeData d s))) = w_read (env s)"
  by (simp add: writeData_def os_write_def split_beta split: list.splits)

lemma writeData_writes [simp]: "w_write (env (snd (writeData d s))) = tl (w_write (env s))"
  by (simp add: writeData_def os_write_def split_beta split: list.splits)

lemma readData_fst:
  "fst (readData m t s) = (rd_count m (head_read (w_read (env s))), rd_buffer m (head_read (w_read (env s))))"
  by (simp add: readData_def os_read_def rd_count_def rd_buffer_def head_read_def split_beta
      split: list.splits rd.splits)

lemma readData_env [simp]:
  "w_read (env (snd (readData m t s))) = tl (w_read (env s))"
  "w_write (env (snd (readData m t s))) = w_write (env s)"
  by (simp_all add: readData_def os_read_def split_beta split: list.splits rd.splits)

lemma rd_count_ge: "0 < k \<Longrightarrow> (k \<le> rd_count m r) = (nat k \<le> length (rd_buffer m r))"
  by (auto simp: rd_count_def rd_buffer_def split: rd.splits)

lemma write_accepted_cong [simp]:
  "write_accepted n (cout_put ts s) = write_accepted n s"
  "write_accepted n (sleep_for k s) = write_accepted n s"
  by (simp_all add: write_accepted_def write_ret_def)

lemma length_cmds [simp]:
  "length reset_cmd = 2" "length info_cmd = 2" "length health_cmd = 2"
  "length scan_cmd = 2" "length stop_cmd = 2"
  by (simp_all add: reset_cmd_def info_cmd_def health_cmd_def scan_cmd_def stop_cmd_def)

lemma rd_count_pos: "(0 < rd_count m r) = (1 \<le> length (rd_buffer m r))"
  using rd_count_ge [of 1 m r] by auto

lemma test_raw_fst:
  "fst (test_raw r s) =
     r\<lparr>raw_communication := raw_communication r \<or> 1 \<le> length (response 256 s)\<rparr>"
  by (auto simp add: test_raw_def split_beta Let_def writeData_fst readData_fst
      response_def rd_count_pos)

lemma test_info_fst:
  "fst (test_info r s) =
     r\<lparr>device_info_success := device_info_success r \<or>
          (7 \<le> length (response 256 s) \<and> valid_header (response 256 s))\<rparr>"
  by (auto simp add: test_info_def split_beta Let_def writeData_fst readData_fst
      response_def rd_count_ge valid_header_def)

lemma test_health_fst:
  "fst (test_health r s) =
     r\<lparr>health_check_success := health_check_success r \<or>
          (10 \<le> length (response 256 s) \<and> valid_header (response 256 s))\<rparr>"
  by (auto simp add: test_health_def split_beta Let_def writeData_fst readData_fst
      response_def rd_count_ge valid_header_def)

lemma extends_by_refl [simp]: "extends_by P s s"
  by (simp add: extends_by_def)

lemma extends_by_same: "trace s' = trace s \<Longrightarrow> extends_by P s s'"
  by (simp add: extends_by_def)

lemma extends_by_trans: "extends_by P s s' \<Longrightarrow> extends_by P s' s'' \<Longrightarrow> extends_by P s s''"
  by (auto simp: extends_by_def)

lemma extends_byI: "trace s' = trace s @ tr \<Longrightarrow> list_all P tr \<Longrightarrow> extends_by P s s'"
  by (auto simp: extends_by_def)

lemma write_ret_cong [simp]:
  "write_ret (cout_put ts s) = write_ret s"
  "write_ret (sleep_for k s) = write_ret s"
  by (simp_all add: write_ret_def)

lemma test_raw_ext: "extends_by is_probe_ev s (snd (test_raw r s))"
  by (rule extends_byI [where tr = "Ev_write reset_cmd (write_ret s)
        # (if write_accepted 2 s then [Ev_sleep 100, Ev_read 256 500] else [])"])
     (simp_all add: test_raw_def split_beta Let_def writeData_fst is_probe_ev_def)

lemma test_info_ext: "extends_by is_probe_ev s (snd (test_info r s))"
  by (rule extends_byI [where tr = "Ev_write info_cmd (write_ret s)
        # (if write_accepted 2 s then [Ev_sleep 100, Ev_read 256 1000] else [])"])
     (simp_all add: test_info_def split_beta Let_def writeData_fst is_probe_ev_def)

lemma test_health_ext: "extends_by is_probe_ev s (snd (test_health r s))"
  by (rule extends_byI [where tr = "Ev_write health_cmd (write_ret s)
        # (if write_accepted 2 s then [Ev_sleep 100, Ev_read 256 1000] else [])"])
     (simp_all add: test_health_def split_beta Let_def writeData_fst is_probe_ev_def)

lemma scan_loop_ext: "extends_by is_probe_ev s (snd (scan_loop a t r s))"
proof (rule scan_loop_induct_rule [where P = "\<lambda>a t r s X. extends_by is_probe_ev s (snd X)"])
  fix a t r s show "extends_by is_probe_ev s (snd ((t, r), s))" by simp
next
  fix a t r s
  show "extends_by is_probe_ev s
      (snd ((t + scan_bytes s sdiv 5, r\<lparr>scan_start_success := True\<rparr>), scan_hit_state s))"
    by (rule extends_byI [where tr = "[Ev_read 2048 200]"]) (simp_all add: is_probe_ev_def)
next
  fix a t r s t'
  assume "extends_by is_probe_ev (scan_next_state a s) (snd (scan_loop (Suc a) t' r (scan_next_state a s)))"
  moreover have "extends_by is_probe_ev s (scan_next_state a s)"
    by (rule extends_byI [where tr = "[Ev_read 2048 200, Ev_sleep 100]"]) (simp_all add: is_probe_ev_def)
  ultimately show "extends_by is_probe_ev s (snd (scan_loop (Suc a) t' r (scan_next_state a s)))"
    by (rule extends_by_trans [rotated])
qed

lemma test_scan_frame [simp]:
  "serial_fd (snd (test_scan r s)) = serial_fd s"
  "log_file (snd (test_scan r s)) = log_file s" "results (snd (test_scan r s)) = results s"
  by (simp_all add: test_scan_def split_beta Let_def)

lemma test_scan_ext: "extends_by is_probe_ev s (snd (test_scan r s))"
proof (cases "write_accepted 2 s")
  case False
  then show ?thesis
    by (intro extends_byI [where tr = "[Ev_write scan_cmd (write_ret s)]"])
       (simp_all add: test_scan_def split_beta Let_def writeData_fst is_probe_ev_def)
next
  case True
  let ?s3 = "sleep_for 500 (snd (writeData scan_cmd (cout_put [Str ''  Testing scan start...'', endl] s)))"
  have "extends_by is_probe_ev s ?s3"
    by (rule extends_byI [where tr = "[Ev_write scan_cmd (write_ret s), Ev_sleep 500]"])
       (simp_all add: is_probe_ev_def write_ret_def)
  moreover have "extends_by is_probe_ev ?s3 (snd (scan_loop 0 0 r ?s3))"
    by (rule scan_loop_ext)
  ultimately have "extends_by is_probe_ev s (snd (scan_loop 0 0 r ?s3))"
    by (rule extends_by_trans)
  moreover have "trace (snd (test_scan r s)) = trace (snd (scan_loop 0 0 r ?s3))"
    using True by (simp add: test_scan_def split_beta Let_def writeData_fst)
  ultimately show ?thesis
    by (simp add: extends_by_def)
qed

lemma scan_loop_result:
  "snd (fst (scan_loop 0 0 r s)) =
     r\<lparr>scan_start_success := (scan_start_success r \<or> 10 < fst (fst (scan_loop 0 0 r s)))\<rparr>"
  using scan_loop_char [of 0 0 r s] by (auto simp: scan_post_def)

lemma test_scan_fst:
  "fst (test_scan r s) = r \<or>
   (\<exists>n. fst (test_scan r s) =
      r\<lparr>scan_start_success := (scan_start_success r \<or> 10 < n), scan_points_received := n\<rparr>)"
proof (cases "write_accepted 2 s")
  case False
  then show ?thesis by (simp add: test_scan_def split_beta Let_def writeData_fst)
next
  case True
  let ?s3 = "sleep_for 500 (snd (writeData scan_cmd (cout_put [Str ''  Testing scan start...'', endl] s)))"
  have "fst (test_scan r s) = (snd (fst (scan_loop 0 0 r ?s3)))\<lparr>scan_points_received := fst (fst (scan_loop 0 0 r ?s3))\<rparr>"
    using True by (simp add: test_scan_def split_beta Let_def writeData_fst)
  also have "\<dots> = r\<lparr>scan_start_success := (scan_start_success r \<or> 10 < fst (fst (scan_loop 0 0 r ?s3))),
      scan_points_received := fst (fst (scan_loop 0 0 r ?s3))\<rparr>"
    by (subst scan_loop_result) simp
  finally show ?thesis by blast
qed

section \<open>Opening the port and the shape of testPort\<close>

lemma now_fst: "fst (now s) = clock_at (w_clock (env s)) 0"
  by (simp add: now_def clock_at_def split: list.splits)

lemma now_env [simp]:
  "w_clock (env (snd (now s))) = tl (w_clock (env s))"
  "w_open (env (snd (now s))) = w_open (env s)"
  "w_write (env (snd (now s))) = w_write (env s)"
  "w_read (env (snd (now s))) = w_read (env s)"
  by (simp_all add: now_def split: list.splits)

lemma clock_at_tl: "clock_at (tl ts) i = clock_at ts (Suc i)"
  by (cases ts) (simp_all add: clock_at_def)

lemma closeSerial_trace:
  "trace (closeSerial s) = trace s @ (if serial_fd s \<noteq> - 1 then [Ev_close (serial_fd s)] else [])"
  by (simp add: closeSerial_def)

lemma next_open_cong [simp]:
  "next_open (cout_put ts s) = next_open s" "next_open (snd (now s)) = next_open s"
  "next_open (closeSerial s) = next_open s"
  by (simp_all add: next_open_def)

lemma openSerial_fst: "fst (openSerial p b s) = (next_open s \<noteq> None)"
  by (simp add: openSerial_def os_open_def next_open_def split_beta Let_def
      split: list.splits option.splits)

lemma openSerial_fd:
  "serial_fd (snd (openSerial p b s)) = (case next_open s of None \<Rightarrow> - 1 | Some n \<Rightarrow> int n)"
  by (simp add: openSerial_def os_open_def next_open_def split_beta Let_def
      split: list.splits option.splits)

lemma openSerial_trace:
  "trace (snd (openSerial p b s)) =
     trace (closeSerial s) @ Ev_open p (next_open s)
       # (if next_open s \<noteq> None then [Ev_configure (speed_of b)] else [])"
  by (simp add: openSerial_def os_open_def next_open_def split_beta Let_def
      split: list.splits option.splits)

lemma openSerial_clock [simp]:
  "w_clock (env (snd (openSerial p b s))) = w_clock (env s)"
  by (simp add: openSerial_def os_open_def split_beta Let_def split: list.splits option.splits)

lemma open_port_fst: "fst (open_port p b s) = fst (openSerial p b s)"
  by (simp add: open_port_def openSerial_fst)

lemma open_port_frame [simp]:
  "log_file (snd (open_port p b s)) = log_file s" "results (snd (open_port p b s)) = results s"
  "w_clock (env (snd (open_port p b s))) = tl (w_clock (env s))"
  by (simp_all add: open_port_def)

lemma open_port_fd:
  "serial_fd (snd (open_port p b s)) = serial_fd (snd (openSerial p b s))"
  by (simp add: open_port_def openSerial_fd)

lemma open_port_trace:
  "trace (snd (open_port p b s)) = trace (snd (openSerial p b s))"
  by (simp add: open_port_def openSerial_trace closeSerial_trace)

lemma testPort_fail:
  assumes "\<not> fst (openSerial p b s)"
  shows "testPort p b s =
    ((blank_result p b)\<lparr>error_message := ''Failed to open serial port'',
        test_duration_ms := clock_at (w_clock (env s)) 1 - clock_at (w_clock (env s)) 0\<rparr>,
     snd (now (snd (open_port p b s))))"
proof -
  have "\<not> fst (open_port p b s)" using assms by (simp add: open_port_fst)
  then show ?thesis
    unfolding testPort_def blank_result_def [symmetric]
    by (simp add: split_beta Let_def open_port_def [symmetric] now_fst clock_at_tl)
qed

lemma testPort_ok:
  assumes "fst (openSerial p b s)"
  shows "testPort p b s =
    ((fst (probes (blank_result p b) (snd (open_port p b s))))
        \<lparr>test_duration_ms :=
           fst (now (closeSerial (sleep_for 100 (snd (writeData stop_cmd
                 (snd (probes (blank_result p b) (snd (open_port p b s))))))))) -
           clock_at (w_clock (env s)) 0\<rparr>,
     snd (now (closeSerial (sleep_for 100 (snd (writeData stop_cmd
                 (snd (probes (blank_result p b) (snd (open_port p b s))))))))))"
proof -
  have "fst (open_port p b s)" using assms by (simp add: open_port_fst)
  then show ?thesis
    unfolding testPort_def blank_result_def [symmetric]
    by (simp add: split_beta Let_def open_port_def [symmetric] probes_def now_fst)
qed

section \<open>The result of a cell\<close>

declare extends_by_trans [trans]

lemma probes_frame [simp]:
  "serial_fd (snd (probes r s)) = serial_fd s"
  "log_file (snd (probes r s)) = log_file s" "results (snd (probes r s)) = results s"
  by (simp_all add: probes_def split_beta Let_def)

lemma probes_ext: "extends_by is_probe_ev s (snd (probes r s))"
proof -
  let ?x1 = "test_raw r s"
  let ?x2 = "test_info (fst ?x1) (snd ?x1)"
  let ?x3 = "test_health (fst ?x2) (snd ?x2)"
  have "extends_by is_probe_ev s (snd ?x1)" by (rule test_raw_ext)
  also have "extends_by is_probe_ev (snd ?x1) (snd ?x2)" by (rule test_info_ext)
  also have "extends_by is_probe_ev (snd ?x2) (snd ?x3)" by (rule test_health_ext)
  also have "extends_by is_probe_ev (snd ?x3) (snd (test_scan (fst ?x3) (snd ?x3)))"
    by (rule test_scan_ext)
  finally show ?thesis by (simp add: probes_def split_beta Let_def)
qed

lemma test_scan_keeps [simp]:
  "port (fst (test_scan r s)) = port r" "baudrate (fst (test_scan r s)) = baudrate r"
  "error_message (fst (test_scan r s)) = error_message r"
  "raw_communication (fst (test_scan r s)) = raw_communication r"
  "device_info_success (fst (test_scan r s)) = device_info_success r"
  "health_check_success (fst (test_scan r s)) = health_check_success r"
  using test_scan_fst [of r s] by auto

lemma test_scan_threshold:
  assumes "\<not> scan_start_success r" "scan_points_received r \<le> 10"
  shows "scan_start_success (fst (test_scan r s)) = (10 < scan_points_received (fst (test_scan r s)))"
  using test_scan_fst [of r s] assms by auto

lemma probes_keeps [simp]:
  "port (fst (probes r s)) = port r" "baudrate (fst (probes r s)) = baudrate r"
  "error_message (fst (probes r s)) = error_message r"
  by (simp_all add: probes_def split_beta Let_def test_raw_fst test_info_fst test_health_fst)

lemma probes_threshold:
  assumes "\<not> scan_start_success r" "scan_points_received r \<le> 10"
  shows "scan_start_success (fst (probes r s)) = (10 < scan_points_received (fst (probes r s)))"
  unfolding probes_def split_beta Let_def
  by (rule test_scan_threshold) (simp_all add: test_raw_fst test_info_fst test_health_fst assms)

lemma blank_result_simps [simp]:
  "port (blank_result p b) = p" "baudrate (blank_result p b) = b"
  "\<not> raw_communication (blank_result p b)" "\<not> device_info_success (blank_result p b)"
  "\<not> health_check_success (blank_result p b)" "\<not> scan_start_success (blank_result p b)"
  "scan_points_received (blank_result p b) = 0" "error_message (blank_result p b) = []"
  by (simp_all add: blank_result_def)

lemma testPort_frame [simp]:
  "log_file (snd (testPort p b s)) = log_file s" "results (snd (testPort p b s)) = results s"
  "serial_fd (snd (testPort p b s)) = - 1"
  by (cases "fst (openSerial p b s)"; simp add: testPort_ok testPort_fail open_port_fd openSerial_fd openSerial_fst)+

lemma testPort_cell [simp]:
  "port (fst (testPort p b s)) = p" "baudrate (fst (testPort p b s)) = b"
  by (cases "fst (openSerial p b s)"; simp add: testPort_ok testPort_fail)+

text \<open>
  C10. The error message of a result is the empty string when the port opened and is
  \<open>"Failed to open serial port"\<close> when it did not: no probe sets it.
\<close>

theorem error_message_only_from_open:
  "error_message (fst (testPort p b s)) =
     (if fst (openSerial p b s) then [] else ''Failed to open serial port'')"
  by (simp add: testPort_ok testPort_fail)

theorem error_message_only_from_open_witness:
  "fst (openSerial ''/dev/ttyUSB0'' 115200 (RPLidarDiagnostic demo_world)) \<and>
   error_message (fst (testPort ''/dev/ttyUSB0'' 115200 (RPLidarDiagnostic demo_world))) = [] \<and>
   \<not> fst (openSerial ''/dev/ttyUSB0'' 115200 (RPLidarDiagnostic silent_world)) \<and>
   error_message (fst (testPort ''/dev/ttyUSB0'' 115200 (RPLidarDiagnostic silent_world))) =
     ''Failed to open serial port''"
proof -
  have a: "fst (openSerial ''/dev/ttyUSB0'' 115200 (RPLidarDiagnostic demo_world))"
    by (simp add: openSerial_fst next_open_def demo_world_def)
  have b: "\<not> fst (openSerial ''/dev/ttyUSB0'' 115200 (RPLidarDiagnostic silent_world))"
    by (simp add: openSerial_fst next_open_def silent_world_def)
  show ?thesis
    using a b
      error_message_only_from_open [of "''/dev/ttyUSB0''" 115200 "RPLidarDiagnostic demo_world"]
      error_message_only_from_open [of "''/dev/ttyUSB0''" 115200 "RPLidarDiagnostic silent_world"]
    by simp
qed

section \<open>The loops of the matrix, and the scan probe as a whole\<close>

lemma printSummary_frame [simp]:
  "log_file (printSummary s) = log_file s" "results (printSummary s) = results s"
  "trace (printSummary s) = trace s" "serial_fd (printSummary s) = serial_fd s"
  by (simp_all add: printSummary_def Let_def split: option.splits)

lemma writeResultToJson_frame [simp]:
  "results (writeResultToJson r s) = results s" "trace (writeResultToJson r s) = trace s"
  "serial_fd (writeResultToJson r s) = serial_fd s"
  "is_open (log_file (writeResultToJson r s)) = is_open (log_file s)"
  by (simp_all add: writeResultToJson_def)

lemma cell_fst [simp]: "fst (cell p b fr s) = False"
  by (simp add: cell_def split_beta Let_def)

lemma cell_results [simp]:
  "results (snd (cell p b fr s)) = results s @ [fst (testPort p b s)]"
  by (simp add: cell_def split_beta Let_def)

lemma cell_trace [simp]: "trace (snd (cell p b fr s)) = trace (snd (testPort p b s))"
  by (simp add: cell_def split_beta Let_def)

lemma cell_fd [simp]: "serial_fd (snd (cell p b fr s)) = - 1"
  by (simp add: cell_def split_beta Let_def)

lemma baud_loop_cells:
  "map cell_of (results (snd (baud_loop p bs fr s))) = map cell_of (results s) @ map (Pair p) bs"
  by (induction bs arbitrary: fr s) (simp_all add: split_beta cell_of_def)

lemma port_loop_cells:
  "map cell_of (results (snd (port_loop ps fr s))) = map cell_of (results s) @ matrix ps"
  by (induction ps arbitrary: fr s) (simp_all add: split_beta baud_loop_cells matrix_def)

lemma test_scan_char:
  assumes r: "\<not> scan_start_success r" and w: "write_accepted 2 s"
  shows "\<exists>n tr. n \<le> 20 \<and>
      trace (snd (test_scan r s)) = trace s @ [Ev_write scan_cmd 2, Ev_sleep 500] @ tr \<and>
      length (filter is_read tr) = n \<and> \<not> list_ex is_write tr \<and>
      scan_points_received (fst (test_scan r s)) = running_total (w_read (env s)) n \<and>
      (\<forall>m<n. running_total (w_read (env s)) m \<le> 10) \<and>
      scan_start_success (fst (test_scan r s)) = (10 < running_total (w_read (env s)) n) \<and>
      (running_total (w_read (env s)) n \<le> 10 \<longrightarrow> n = 20)"
proof -
  let ?s3 = "sleep_for 500 (snd (writeData scan_cmd (cout_put [Str ''  Testing scan start...'', endl] s)))"
  let ?X = "scan_loop 0 0 r ?s3"
  have wr: "write_ret s = 2" using w by (simp add: write_accepted_def)
  have tr3: "trace ?s3 = trace s @ [Ev_write scan_cmd 2, Ev_sleep 500]" by (simp add: wr)
  have rd3: "w_read (env ?s3) = w_read (env s)" by simp
  have res: "fst (test_scan r s) = (snd (fst ?X))\<lparr>scan_points_received := fst (fst ?X)\<rparr>"
    and tr: "trace (snd (test_scan r s)) = trace (snd ?X)"
    using w by (simp_all add: test_scan_def split_beta Let_def writeData_fst)
  have "scan_post 0 0 r ?s3 ?X" using scan_loop_char [of 0 0 r ?s3] by simp
  then obtain n tr' where
    n: "0 + n \<le> max_attempts" and tr': "trace (snd ?X) = trace ?s3 @ tr'"
    and cnt: "length (filter is_read tr') = n" and nw: "\<not> list_ex is_write tr'"
    and tot: "fst (fst ?X) = 0 + running_total (w_read (env ?s3)) n"
    and below: "\<forall>m<n. 0 + running_total (w_read (env ?s3)) m \<le> 10"
    and sf: "snd (fst ?X) = r\<lparr>scan_start_success := (scan_start_success r \<or> 10 < fst (fst ?X))\<rparr>"
    and full: "fst (fst ?X) \<le> 10 \<longrightarrow> 0 + n = max_attempts"
    unfolding scan_post_def by blast
  have tot': "fst (fst ?X) = running_total (w_read (env s)) n" using tot rd3 by simp
  have below': "\<forall>m<n. running_total (w_read (env s)) m \<le> 10" using below rd3 by simp
  have "n \<le> 20" using n by (simp add: max_attempts_def)
  moreover have "trace (snd (test_scan r s)) = trace s @ [Ev_write scan_cmd 2, Ev_sleep 500] @ tr'"
    using tr tr' tr3 by simp
  moreover have "scan_points_received (fst (test_scan r s)) = running_total (w_read (env s)) n"
    using res tot' by simp
  moreover have "scan_start_success (fst (test_scan r s)) = (10 < running_total (w_read (env s)) n)"
    using res sf r tot' by simp
  moreover have "running_total (w_read (env s)) n \<le> 10 \<longrightarrow> n = 20"
    using full tot' by (simp add: max_attempts_def)
  ultimately show ?thesis using cnt nw below' by blast
qed

lemma testPort_threshold:
  "scan_start_success (fst (testPort p b s)) = (10 < scan_points_received (fst (testPort p b s)))"
  by (cases "fst (openSerial p b s)") (simp_all add: testPort_ok testPort_fail probes_threshold)

section \<open>What one cell does\<close>

lemma cell_of_testPort: "cell_of (fst (testPort p b s)) = (p, b)"
  by (simp add: cell_of_def)

lemma baud_loop_results:
  "\<exists>rs. results (snd (baud_loop p bs fr s)) = results s @ rs \<and> map cell_of rs = map (Pair p) bs"
proof (induction bs arbitrary: fr s)
  case Nil
  then show ?case by simp
next
  case (Cons b bs)
  from Cons [of False "snd (cell p b fr s)"] obtain rs where
    "results (snd (baud_loop p bs False (snd (cell p b fr s)))) = results (snd (cell p b fr s)) @ rs"
    "map cell_of rs = map (Pair p) bs" by blast
  then show ?case
    by (intro exI [of _ "fst (testPort p b s) # rs"]) (simp add: split_beta cell_of_testPort)
qed

text \<open>
  C6. When the port does not open, the result of the cell is the failure result: the
  error message is set, the four outcomes are false, no point is counted, and the
  duration is the difference of the two clock readings around the attempt. Nothing is
  written or read: the only events of the cell are the closing of a descriptor left open
  and the failed open. The loop over the baud rates then goes on: it records this result
  and one result for every remaining baud rate.
\<close>

theorem open_failure_short_circuits:
  assumes "\<not> fst (openSerial p b s)"
  shows "fst (testPort p b s) =
           \<lparr>port = p, baudrate = b, raw_communication = False, device_info_success = False,
            health_check_success = False, scan_start_success = False, scan_points_received = 0,
            error_message = ''Failed to open serial port'',
            test_duration_ms = clock_at (w_clock (env s)) 1 - clock_at (w_clock (env s)) 0\<rparr> \<and>
         error_message (fst (testPort p b s)) \<noteq> [] \<and>
         trace (snd (testPort p b s)) = trace (closeSerial s) @ [Ev_open p None] \<and>
         (\<exists>rs. results (snd (baud_loop p (b # bs) fr s)) = results s @ fst (testPort p b s) # rs \<and>
               map cell_of rs = map (Pair p) bs)"
proof -
  have none: "next_open s = None" using assms by (simp add: openSerial_fst)
  have "fst (testPort p b s) =
           \<lparr>port = p, baudrate = b, raw_communication = False, device_info_success = False,
            health_check_success = False, scan_start_success = False, scan_points_received = 0,
            error_message = ''Failed to open serial port'',
            test_duration_ms = clock_at (w_clock (env s)) 1 - clock_at (w_clock (env s)) 0\<rparr>"
    using assms by (simp add: testPort_fail blank_result_def)
  moreover have "error_message (fst (testPort p b s)) \<noteq> []"
    using assms by (simp add: testPort_fail)
  moreover have "trace (snd (testPort p b s)) = trace (closeSerial s) @ [Ev_open p None]"
    using assms none by (simp add: testPort_fail open_port_trace openSerial_trace)
  moreover have "\<exists>rs. results (snd (baud_loop p (b # bs) fr s)) = results s @ fst (testPort p b s) # rs \<and>
               map cell_of rs = map (Pair p) bs"
    using baud_loop_results [of p bs False "snd (cell p b fr s)"] by (simp add: split_beta)
  ultimately show ?thesis by blast
qed

theorem open_failure_short_circuits_witness:
  "\<not> fst (openSerial ''/dev/ttyUSB0'' 115200 (RPLidarDiagnostic silent_world)) \<and>
   fst (testPort ''/dev/ttyUSB0'' 115200 (RPLidarDiagnostic silent_world)) =
     \<lparr>port = ''/dev/ttyUSB0'', baudrate = 115200, raw_communication = False,
      device_info_success = False, health_check_success = False, scan_start_success = False,
      scan_points_received = 0, error_message = ''Failed to open serial port'',
      test_duration_ms = 4000\<rparr> \<and>
   trace (snd (testPort ''/dev/ttyUSB0'' 115200 (RPLidarDiagnostic silent_world))) =
     [Ev_log_open ''rplidar_diagnostic_results.json'' True, Ev_open ''/dev/ttyUSB0'' None]"
proof -
  have h: "\<not> fst (openSerial ''/dev/ttyUSB0'' 115200 (RPLidarDiagnostic silent_world))"
    by (simp add: openSerial_fst next_open_def silent_world_def)
  show ?thesis
    using h open_failure_short_circuits [OF h, of "[]" True]
    by (simp add: clock_at_def silent_world_def closeSerial_trace)
qed

lemma testPort_ok_trace:
  assumes "fst (openSerial p b s)"
  shows "\<exists>tr k. list_all is_probe_ev tr \<and>
           trace (snd (testPort p b s)) =
             trace (snd (openSerial p b s)) @ tr
             @ [Ev_write [0xA5, 0x25] k, Ev_sleep 100, Ev_close (serial_fd (snd (openSerial p b s)))]"
proof -
  let ?s3 = "snd (open_port p b s)"
  let ?X = "probes (blank_result p b) ?s3"
  from probes_ext [of ?s3 "blank_result p b"] obtain tr where
    tr: "trace (snd ?X) = trace ?s3 @ tr" and pr: "list_all is_probe_ev tr"
    by (auto simp: extends_by_def)
  have fd: "serial_fd (snd (openSerial p b s)) \<noteq> - 1"
    using assms by (auto simp: openSerial_fst openSerial_fd split: option.splits)
  have "trace (snd (testPort p b s)) =
          trace (snd (openSerial p b s)) @ tr
          @ [Ev_write [0xA5, 0x25] (write_ret (snd ?X)), Ev_sleep 100,
             Ev_close (serial_fd (snd (openSerial p b s)))]"
    using assms fd
    by (simp add: testPort_ok closeSerial_trace tr open_port_trace open_port_fd stop_cmd_def)
  then show ?thesis using pr by blast
qed

lemma testPort_fail_trace:
  assumes "\<not> fst (openSerial p b s)"
  shows "trace (snd (testPort p b s)) = trace (closeSerial s) @ [Ev_open p None]"
proof -
  have "next_open s = None" using assms by (simp add: openSerial_fst)
  then show ?thesis using assms by (simp add: testPort_fail open_port_trace openSerial_trace)
qed

text \<open>
  C8. When the port has opened, the events of the cell after the opening are the events
  of the four probes, then the write of the STOP command \<open>0xA5 0x25\<close> (whatever the
  transport answers to it), then the delay of 100 ms, then the closing of the port. This
  holds in every state, so on every way the scan probe is left: its START_SCAN write
  refused, the threshold crossed, or the 20 attempts used up.
\<close>

theorem stop_sent_on_every_path:
  assumes "fst (openSerial p b s)"
  shows "\<exists>tr k. list_all is_probe_ev tr \<and>
           trace (snd (testPort p b s)) =
             trace (snd (openSerial p b s)) @ tr
             @ [Ev_write [0xA5, 0x25] k, Ev_sleep 100, Ev_close (serial_fd (snd (openSerial p b s)))]"
  using assms by (rule testPort_ok_trace)

theorem stop_sent_on_every_path_witness:
  "fst (openSerial ''/dev/ttyUSB0'' 115200 (RPLidarDiagnostic demo_world)) \<and>
   (\<exists>tr k. list_all is_probe_ev tr \<and>
      trace (snd (testPort ''/dev/ttyUSB0'' 115200 (RPLidarDiagnostic demo_world))) =
        [Ev_log_open ''rplidar_diagnostic_results.json'' True, Ev_open ''/dev/ttyUSB0'' (Some 3),
         Ev_configure 115200] @ tr @ [Ev_write [0xA5, 0x25] k, Ev_sleep 100, Ev_close 3])"
proof -
  have h: "fst (openSerial ''/dev/ttyUSB0'' 115200 (RPLidarDiagnostic demo_world))"
    by (simp add: openSerial_fst next_open_def demo_world_def)
  show ?thesis
    using h stop_sent_on_every_path [OF h]
    by (simp add: openSerial_trace openSerial_fd closeSerial_trace next_open_def demo_world_def
        speed_of_def)
qed

lemma test_scan_refused:
  assumes "\<not> write_accepted 2 s"
  shows "fst (test_scan r s) = r \<and>
         trace (snd (test_scan r s)) = trace s @ [Ev_write scan_cmd (write_ret s)]"
  using assms by (simp add: test_scan_def split_beta Let_def writeData_fst)

lemma heuristic_points_le: "0 \<le> heuristic_points r \<and> heuristic_points r \<le> 409"
proof -
  have "bytes_received r \<le> 2048"
    by (simp add: bytes_received_def split: rd.splits)
  then have "bytes_received r div 5 \<le> 409" by linarith
  then show ?thesis by (simp add: heuristic_points_def)
qed

section \<open>The health and device info probes\<close>













section \<open>One descriptor at a time\<close>

lemma single_open_length: "single_open fds tr \<Longrightarrow> length fds \<le> 1"
  by (cases tr) simp_all

lemma single_open_append:
  "single_open fds (xs @ ys) = (single_open fds xs \<and> single_open (foldl step_fds fds xs) ys)"
  by (induction xs arbitrary: fds) (auto dest: single_open_length)

lemma step_fds_probe: "is_probe_ev e \<Longrightarrow> step_fds fds e = fds"
  by (cases e) (simp_all add: is_probe_ev_def step_fds_def)

lemma foldl_step_fds_probe: "list_all is_probe_ev tr \<Longrightarrow> foldl step_fds fds tr = fds"
  by (induction tr arbitrary: fds) (simp_all add: step_fds_probe)

lemma single_open_probe: "list_all is_probe_ev tr \<Longrightarrow> single_open fds tr = (length fds \<le> 1)"
  by (induction tr arbitrary: fds) (auto simp: step_fds_probe)

lemma fd_inv_closeSerial: "fd_inv s \<Longrightarrow> fd_inv (closeSerial s)"
  by (auto simp: fd_inv_def closeSerial_def single_open_append step_fds_def)

lemma fd_inv_openSerial: "fd_inv s \<Longrightarrow> fd_inv (snd (openSerial p b s))"
proof -
  assume inv: "fd_inv s"
  have c: "single_open [] (trace (closeSerial s))" "foldl step_fds [] (trace (closeSerial s)) = []"
    using fd_inv_closeSerial [OF inv] by (simp_all add: fd_inv_def)
  show ?thesis
    unfolding fd_inv_def
    by (cases "next_open s")
       (simp_all add: openSerial_trace openSerial_fd single_open_append c step_fds_def)
qed

lemma fd_inv_testPort: "fd_inv s \<Longrightarrow> fd_inv (snd (testPort p b s))"
proof (cases "fst (openSerial p b s)")
  case False
  assume inv: "fd_inv s"
  have c: "single_open [] (trace (closeSerial s))" "foldl step_fds [] (trace (closeSerial s)) = []"
    using fd_inv_closeSerial [OF inv] by (simp_all add: fd_inv_def)
  show ?thesis
    unfolding fd_inv_def
    by (simp add: testPort_fail_trace [OF False] single_open_append c step_fds_def)
next
  case True
  assume inv: "fd_inv s"
  let ?s1 = "snd (openSerial p b s)"
  have o: "single_open [] (trace ?s1)"
    "foldl step_fds [] (trace ?s1) = (if serial_fd ?s1 = - 1 then [] else [serial_fd ?s1])"
    using fd_inv_openSerial [OF inv, of p b] by (simp_all add: fd_inv_def)
  from testPort_ok_trace [OF True] obtain tr k where
    pr: "list_all is_probe_ev tr" and
    tr: "trace (snd (testPort p b s)) =
           trace ?s1 @ tr @ [Ev_write [0xA5, 0x25] k, Ev_sleep 100, Ev_close (serial_fd ?s1)]"
    by blast
  show ?thesis
    unfolding fd_inv_def tr
    by (simp add: single_open_append o foldl_step_fds_probe [OF pr] single_open_probe [OF pr]
        step_fds_def)
qed

lemma fd_inv_same: "fd_inv s \<Longrightarrow> trace s' = trace s \<Longrightarrow> serial_fd s' = serial_fd s \<Longrightarrow> fd_inv s'"
  by (simp add: fd_inv_def)

lemma fd_inv_cell: "fd_inv s \<Longrightarrow> fd_inv (snd (cell p b fr s))"
  using fd_inv_testPort [of s p b] by (simp add: fd_inv_def)

lemma fd_inv_baud_loop: "fd_inv s \<Longrightarrow> fd_inv (snd (baud_loop p bs fr s))"
  by (induction bs arbitrary: fr s) (simp_all add: split_beta fd_inv_cell)

lemma fd_inv_port_loop: "fd_inv s \<Longrightarrow> fd_inv (snd (port_loop ps fr s))"
  by (induction ps arbitrary: fr s) (simp_all add: split_beta fd_inv_baud_loop)

lemma fd_inv_runFullDiagnostic: "fd_inv s \<Longrightarrow> fd_inv (runFullDiagnostic s)"
proof -
  assume inv: "fd_inv s"
  let ?s1 = "cout_put [Str ''=== RPLIDAR C++ Hardware Diagnostic ==='', endl] s"
  have 1: "fd_inv (cout_put ts s)" for ts using inv by (simp add: fd_inv_def)
  have 2: "fd_inv (cout_put ts' (cout_put ts s))" for ts ts' using inv by (simp add: fd_inv_def)
  have "fd_inv (snd (port_loop ps True (cout_put ts' (cout_put ts s))))" for ps ts ts'
    by (rule fd_inv_port_loop [OF 2])
  then have "fd_inv (printSummary (snd (port_loop ps True (cout_put ts' (cout_put ts s)))))" for ps ts ts'
    by (rule fd_inv_same) simp_all
  then show ?thesis
    using 2 by (simp add: runFullDiagnostic_def Let_def split_beta)
qed

lemma finalizeLogs_trace:
  "trace (finalizeLogs s) =
     trace s @ Ev_finalize # (if is_open (log_file s) then [Ev_log_close] else [])"
  by (simp add: finalizeLogs_def log_close_def split_beta Let_def)

lemma finalizeLogs_frame [simp]:
  "serial_fd (finalizeLogs s) = serial_fd s" "results (finalizeLogs s) = results s"
  by (simp_all add: finalizeLogs_def log_close_def split_beta Let_def)

lemma fd_inv_main: "fd_inv (main w)"
proof -
  have "fd_inv (RPLidarDiagnostic w)" by (simp add: fd_inv_def step_fds_def)
  then have "fd_inv (closeSerial (runFullDiagnostic (RPLidarDiagnostic w)))"
    by (intro fd_inv_closeSerial fd_inv_runFullDiagnostic)
  then show ?thesis
    by (simp add: main_def destructor_def fd_inv_def finalizeLogs_trace single_open_append step_fds_def)
qed

text \<open>
  C9. Closing twice is closing once, and closing when no port is open changes nothing;
  the function returns no value, so there is no error to report. \<open>openSerial\<close> starts
  with \<open>closeSerial\<close>: from a state with a port open its first event is the closing
  of that port, before the new open. Over a whole run, started by the constructor and
  ended by the destructor, the events never leave more than one descriptor open, and none
  is open at the end.
\<close>

theorem close_idempotent_open_closes_first:
  "closeSerial (closeSerial s) = closeSerial s \<and>
   (serial_fd s = - 1 \<longrightarrow> closeSerial s = s) \<and>
   openSerial p b (closeSerial s) = openSerial p b s \<and>
   (serial_fd s \<noteq> - 1 \<longrightarrow>
      (\<exists>tr. trace (snd (openSerial p b s)) =
         trace s @ Ev_close (serial_fd s) # Ev_open p (next_open s) # tr)) \<and>
   single_open [] (trace (main w)) \<and> foldl step_fds [] (trace (main w)) = []"
proof -
  have 1: "closeSerial (closeSerial s) = closeSerial s"
    by (simp add: closeSerial_def)
  have 2: "serial_fd s = - 1 \<longrightarrow> closeSerial s = s"
    by (simp add: closeSerial_def)
  have 3: "openSerial p b (closeSerial s) = openSerial p b s"
    by (simp add: openSerial_def 1)
  have 4: "serial_fd s \<noteq> - 1 \<longrightarrow>
      (\<exists>tr. trace (snd (openSerial p b s)) =
         trace s @ Ev_close (serial_fd s) # Ev_open p (next_open s) # tr)"
    by (simp add: openSerial_trace closeSerial_trace)
  have "serial_fd (main w) = - 1"
    by (simp add: main_def destructor_def)
  then have 5: "single_open [] (trace (main w)) \<and> foldl step_fds [] (trace (main w)) = []"
    using fd_inv_main [of w] by (simp add: fd_inv_def)
  from 1 2 3 4 5 show ?thesis by blast
qed

theorem close_idempotent_open_closes_first_witness:
  "serial_fd (RPLidarDiagnostic demo_world) = - 1 \<and>
   closeSerial (RPLidarDiagnostic demo_world) = RPLidarDiagnostic demo_world \<and>
   serial_fd (snd (openSerial ''/dev/ttyUSB0'' 115200 (RPLidarDiagnostic demo_world))) = 3 \<and>
   (\<exists>tr. trace (snd (openSerial ''/dev/ttyUSB0'' 256000
                (snd (openSerial ''/dev/ttyUSB0'' 115200 (RPLidarDiagnostic demo_world))))) =
      [Ev_log_open ''rplidar_diagnostic_results.json'' True, Ev_open ''/dev/ttyUSB0'' (Some 3),
       Ev_configure 115200, Ev_close 3, Ev_open ''/dev/ttyUSB0'' None] @ tr) \<and>
   single_open [] (trace (main demo_world))"
proof -
  let ?s0 = "RPLidarDiagnostic demo_world"
  let ?s1 = "snd (openSerial ''/dev/ttyUSB0'' 115200 ?s0)"
  have fd0: "serial_fd ?s0 = - 1" by simp
  have fd1: "serial_fd ?s1 = 3"
    by (simp add: openSerial_fd next_open_def demo_world_def)
  have tr1: "trace ?s1 = [Ev_log_open ''rplidar_diagnostic_results.json'' True,
      Ev_open ''/dev/ttyUSB0'' (Some 3), Ev_configure 115200]"
    by (simp add: openSerial_trace closeSerial_trace next_open_def demo_world_def speed_of_def)
  have no1: "next_open ?s1 = None"
    by (simp add: next_open_def openSerial_def os_open_def closeSerial_def split_beta Let_def
        demo_world_def)
  from close_idempotent_open_closes_first [of ?s0 "''/dev/ttyUSB0''" 115200 demo_world] fd0
  have a: "closeSerial ?s0 = ?s0 \<and> single_open [] (trace (main demo_world))" by blast
  from close_idempotent_open_closes_first [of ?s1 "''/dev/ttyUSB0''" 256000 demo_world] fd1
  have "\<exists>tr. trace (snd (openSerial ''/dev/ttyUSB0'' 256000 ?s1)) =
         trace ?s1 @ Ev_close (serial_fd ?s1) # Ev_open ''/dev/ttyUSB0'' (next_open ?s1) # tr"
    by simp
  then have b: "\<exists>tr. trace (snd (openSerial ''/dev/ttyUSB0'' 256000 ?s1)) =
      [Ev_log_open ''rplidar_diagnostic_results.json'' True, Ev_open ''/dev/ttyUSB0'' (Some 3),
       Ev_configure 115200, Ev_close 3, Ev_open ''/dev/ttyUSB0'' None] @ tr"
    by (simp add: fd1 tr1 no1)
  from fd0 fd1 a b show ?thesis by blast
qed

section \<open>The matrix\<close>

lemma candidate_ports_eq:
  "candidate_ports =
     [''/dev/ttyUSB0'', ''/dev/ttyUSB1'', ''/dev/ttyUSB2'', ''/dev/ttyUSB3'', ''/dev/ttyUSB4'',
      ''/dev/ttyUSB5'', ''/dev/ttyUSB6'', ''/dev/ttyUSB7'', ''/dev/ttyUSB8'', ''/dev/ttyUSB9'',
      ''/dev/ttyACM0'', ''/dev/ttyACM1'', ''/dev/ttyACM2'', ''/dev/ttyACM3'', ''/dev/ttyACM4'',
      ''/dev/ttyACM5'', ''/dev/ttyACM6'', ''/dev/ttyACM7'', ''/dev/ttyACM8'', ''/dev/ttyACM9'',
      ''/dev/ttyS0'', ''/dev/ttyS1'', ''/dev/ttyS2'', ''/dev/ttyS3'', ''/dev/ttyS4'',
      ''/dev/ttyS5'', ''/dev/ttyS6'', ''/dev/ttyS7'', ''/dev/ttyS8'', ''/dev/ttyS9'']"
  by code_simp

lemma distinct_candidate_ports: "distinct candidate_ports"
  by (simp add: candidate_ports_eq)

lemma findSerialPorts_facts:
  "distinct (findSerialPorts s)" "length (findSerialPorts s) \<le> 30"
  "findSerialPorts (cout_put ts s) = findSerialPorts s"
proof -
  show "distinct (findSerialPorts s)"
    by (simp add: findSerialPorts_def distinct_candidate_ports)
  have "length (findSerialPorts s) \<le> length candidate_ports"
    by (simp add: findSerialPorts_def)
  then show "length (findSerialPorts s) \<le> 30" by (simp add: candidate_ports_eq)
  show "findSerialPorts (cout_put ts s) = findSerialPorts s"
    by (simp add: findSerialPorts_def)
qed

lemma runFullDiagnostic_cells:
  "map cell_of (results (runFullDiagnostic s)) = map cell_of (results s) @ matrix (findSerialPorts s)"
  by (simp add: runFullDiagnostic_def Let_def split_beta port_loop_cells findSerialPorts_facts matrix_def)

lemma main_cells: "map cell_of (results (main w)) = matrix (findSerialPorts (RPLidarDiagnostic w))"
  by (simp add: main_def destructor_def runFullDiagnostic_cells)

lemma distinct_matrix: "distinct ps \<Longrightarrow> distinct (matrix ps)"
  by (induction ps) (auto simp: matrix_def baudrates_def)

lemma length_matrix: "length (matrix ps) = length ps * 5"
  by (induction ps) (simp_all add: matrix_def baudrates_def)

text \<open>
  C1. The results of a run, read as (port, baud rate) pairs, are the discovered ports in
  discovery order, each with the five baud rates in the order 115200, 256000, 230400,
  460800, 921600: one result for each cell, none twice, and none at all when no port is
  discovered.
\<close>

theorem matrix_exhaustive:
  "map cell_of (results (main w)) =
     concat (map (\<lambda>p. [(p, 115200), (p, 256000), (p, 230400), (p, 460800), (p, 921600)])
               (findSerialPorts (RPLidarDiagnostic w))) \<and>
   length (results (main w)) = length (findSerialPorts (RPLidarDiagnostic w)) * 5 \<and>
   distinct (map cell_of (results (main w)))"
proof -
  let ?ps = "findSerialPorts (RPLidarDiagnostic w)"
  have "map cell_of (results (main w)) = matrix ?ps" by (rule main_cells)
  moreover have "matrix ?ps =
      concat (map (\<lambda>p. [(p, 115200), (p, 256000), (p, 230400), (p, 460800), (p, 921600)]) ?ps)"
    by (simp add: matrix_def baudrates_def)
  moreover have "length (results (main w)) = length ?ps * 5"
    using arg_cong [OF main_cells [of w], of length] by (simp add: length_matrix)
  moreover have "distinct (map cell_of (results (main w)))"
    by (simp only: main_cells) (rule distinct_matrix, rule findSerialPorts_facts)
  ultimately show ?thesis by simp
qed

theorem matrix_exhaustive_witness:
  "findSerialPorts (RPLidarDiagnostic demo_world) = [''/dev/ttyUSB0''] \<and>
   map cell_of (results (main demo_world)) =
     [(''/dev/ttyUSB0'', 115200), (''/dev/ttyUSB0'', 256000), (''/dev/ttyUSB0'', 230400),
      (''/dev/ttyUSB0'', 460800), (''/dev/ttyUSB0'', 921600)] \<and>
   length (results (main demo_world)) = 5 \<and>
   findSerialPorts (RPLidarDiagnostic empty_world) = [] \<and>
   length (results (main empty_world)) = 0"
proof -
  have a: "findSerialPorts (RPLidarDiagnostic demo_world) = [''/dev/ttyUSB0'']"
    by (simp add: findSerialPorts_def candidate_ports_eq demo_world_def)
  have b: "findSerialPorts (RPLidarDiagnostic empty_world) = []"
    by (simp add: findSerialPorts_def empty_world_def)
  show ?thesis
    using matrix_exhaustive [of demo_world] matrix_exhaustive [of empty_world]
    by (simp add: a b)
qed

section \<open>The scan probe inside testPort\<close>

lemma probes_pre_scan:
  "probes (blank_result p b) (snd (open_port p b s)) =
     test_scan (fst (pre_scan p b s)) (snd (pre_scan p b s))"
  by (simp add: probes_def pre_scan_def split_beta Let_def)

lemma pre_scan_result:
  "\<not> scan_start_success (fst (pre_scan p b s))" "scan_points_received (fst (pre_scan p b s)) = 0"
  by (simp_all add: pre_scan_def split_beta Let_def test_raw_fst test_info_fst test_health_fst)

lemma pre_scan_fd: "serial_fd (snd (pre_scan p b s)) = serial_fd (snd (openSerial p b s))"
  by (simp add: pre_scan_def split_beta Let_def open_port_fd)

lemma probe_reads:
  "w_read (env (snd (test_raw r s))) = drop (if write_accepted 2 s then 1 else 0) (w_read (env s))"
  "w_read (env (snd (test_info r s))) = drop (if write_accepted 2 s then 1 else 0) (w_read (env s))"
  "w_read (env (snd (test_health r s))) = drop (if write_accepted 2 s then 1 else 0) (w_read (env s))"
  by (simp_all add: test_raw_def test_info_def test_health_def split_beta Let_def writeData_fst
      drop_Suc)

lemma openSerial_reads [simp]: "w_read (env (snd (openSerial p b s))) = w_read (env s)"
  by (simp add: openSerial_def os_open_def split_beta Let_def split: list.splits option.splits)

lemma open_port_reads [simp]: "w_read (env (snd (open_port p b s))) = w_read (env s)"
  by (simp add: open_port_def)

lemma pre_scan_reads: "\<exists>j\<le>3. w_read (env (snd (pre_scan p b s))) = drop j (w_read (env s))"
proof -
  let ?s0 = "snd (open_port p b s)"
  let ?x1 = "test_raw (blank_result p b) ?s0"
  let ?x2 = "test_info (fst ?x1) (snd ?x1)"
  let ?j = "(if write_accepted 2 (snd ?x2) then 1 else 0) + ((if write_accepted 2 (snd ?x1) then 1 else 0)
      + (if write_accepted 2 ?s0 then 1 else (0::nat)))"
  have "w_read (env (snd (pre_scan p b s))) = drop ?j (w_read (env s))"
    by (simp only: pre_scan_def split_beta Let_def probe_reads drop_drop open_port_reads)
  moreover have "?j \<le> 3" by simp
  ultimately show ?thesis by blast
qed

lemma testPort_scan_accepted:
  assumes op: "fst (openSerial p b s)" and w: "write_accepted 2 (snd (pre_scan p b s))"
  shows "\<exists>n tr k. n \<le> 20 \<and>
      trace (snd (testPort p b s)) =
        trace (snd (pre_scan p b s)) @ [Ev_write scan_cmd 2, Ev_sleep 500] @ tr
        @ [Ev_write [0xA5, 0x25] k, Ev_sleep 100, Ev_close (serial_fd (snd (openSerial p b s)))] \<and>
      length (filter is_read tr) = n \<and> \<not> list_ex is_write tr \<and>
      scan_points_received (fst (testPort p b s)) = running_total (w_read (env (snd (pre_scan p b s)))) n \<and>
      (\<forall>m<n. running_total (w_read (env (snd (pre_scan p b s)))) m \<le> 10) \<and>
      scan_start_success (fst (testPort p b s)) = (10 < running_total (w_read (env (snd (pre_scan p b s)))) n) \<and>
      (running_total (w_read (env (snd (pre_scan p b s)))) n \<le> 10 \<longrightarrow> n = 20)"
proof -
  let ?r = "fst (pre_scan p b s)" and ?s = "snd (pre_scan p b s)"
  let ?X = "test_scan ?r ?s"
  from test_scan_char [OF pre_scan_result(1) w] obtain n tr where
    n: "n \<le> 20" and tr: "trace (snd ?X) = trace ?s @ [Ev_write scan_cmd 2, Ev_sleep 500] @ tr"
    and cnt: "length (filter is_read tr) = n" and nw: "\<not> list_ex is_write tr"
    and pts: "scan_points_received (fst ?X) = running_total (w_read (env ?s)) n"
    and below: "\<forall>m<n. running_total (w_read (env ?s)) m \<le> 10"
    and suc: "scan_start_success (fst ?X) = (10 < running_total (w_read (env ?s)) n)"
    and full: "running_total (w_read (env ?s)) n \<le> 10 \<longrightarrow> n = 20"
    by blast
  have fd: "serial_fd (snd (openSerial p b s)) \<noteq> - 1"
    using op by (auto simp: openSerial_fst openSerial_fd split: option.splits)
  have res: "scan_points_received (fst (testPort p b s)) = scan_points_received (fst ?X)"
    "scan_start_success (fst (testPort p b s)) = scan_start_success (fst ?X)"
    using op by (simp_all add: testPort_ok probes_pre_scan)
  have "trace (snd (testPort p b s)) =
      trace ?s @ [Ev_write scan_cmd 2, Ev_sleep 500] @ tr
      @ [Ev_write [0xA5, 0x25] (write_ret (snd ?X)), Ev_sleep 100,
         Ev_close (serial_fd (snd (openSerial p b s)))]"
    using op fd
    by (simp add: testPort_ok probes_pre_scan closeSerial_trace tr pre_scan_fd stop_cmd_def)
  with n cnt nw pts below suc full res show ?thesis by (metis (no_types, lifting))
qed

lemma testPort_scan_refused:
  assumes op: "fst (openSerial p b s)" and w: "\<not> write_accepted 2 (snd (pre_scan p b s))"
  shows "scan_points_received (fst (testPort p b s)) = 0 \<and>
      \<not> scan_start_success (fst (testPort p b s)) \<and>
      (\<exists>k. trace (snd (testPort p b s)) =
        trace (snd (pre_scan p b s))
        @ [Ev_write scan_cmd (write_ret (snd (pre_scan p b s))),
           Ev_write [0xA5, 0x25] k, Ev_sleep 100, Ev_close (serial_fd (snd (openSerial p b s)))])"
proof -
  let ?r = "fst (pre_scan p b s)" and ?s = "snd (pre_scan p b s)"
  let ?X = "test_scan ?r ?s"
  from test_scan_refused [OF w, of ?r] have
    x: "fst ?X = ?r" and tr: "trace (snd ?X) = trace ?s @ [Ev_write scan_cmd (write_ret ?s)]"
    by simp_all
  have fd: "serial_fd (snd (openSerial p b s)) \<noteq> - 1"
    using op by (auto simp: openSerial_fst openSerial_fd split: option.splits)
  have "scan_points_received (fst (testPort p b s)) = 0" "\<not> scan_start_success (fst (testPort p b s))"
    using op by (simp_all add: testPort_ok probes_pre_scan x pre_scan_result)
  moreover have "trace (snd (testPort p b s)) =
        trace ?s @ [Ev_write scan_cmd (write_ret ?s),
           Ev_write [0xA5, 0x25] (write_ret (snd ?X)), Ev_sleep 100,
           Ev_close (serial_fd (snd (openSerial p b s)))]"
    using op fd
    by (simp add: testPort_ok probes_pre_scan closeSerial_trace tr pre_scan_fd stop_cmd_def)
  ultimately show ?thesis by blast
qed

lemma testPort_not_opened:
  assumes "\<not> fst (openSerial p b s)"
  shows "scan_points_received (fst (testPort p b s)) = 0 \<and> \<not> scan_start_success (fst (testPort p b s))"
  using assms by (simp add: testPort_fail)

lemma probe_writes [simp]:
  "w_write (env (snd (test_raw r s))) = tl (w_write (env s))"
  "w_write (env (snd (test_info r s))) = tl (w_write (env s))"
  "w_write (env (snd (test_health r s))) = tl (w_write (env s))"
  by (simp_all add: test_raw_def test_info_def test_health_def split_beta Let_def)

lemma openSerial_writes [simp]: "w_write (env (snd (openSerial p b s))) = w_write (env s)"
  by (simp add: openSerial_def os_open_def split_beta Let_def split: list.splits option.splits)

lemma open_port_writes [simp]: "w_write (env (snd (open_port p b s))) = w_write (env s)"
  by (simp add: open_port_def)

lemma pre_scan_env_accepted:
  assumes "w_write (env s) = 2 # 2 # 2 # ws"
  shows "w_write (env (snd (pre_scan p b s))) = ws"
    and "w_read (env (snd (pre_scan p b s))) = drop 3 (w_read (env s))"
  using assms
  by (simp_all add: pre_scan_def split_beta Let_def probe_reads write_accepted_def write_ret_def
      numeral_3_eq_3)

lemma pre_scan_env_refused:
  assumes "w_write (env s) = []"
  shows "w_write (env (snd (pre_scan p b s))) = []"
  using assms by (simp add: pre_scan_def split_beta Let_def)

text \<open>
  C3. In every result the scan succeeded exactly when more than 10 points were counted.
  When the port has opened and the START_SCAN write is accepted, \<open>testPort\<close> makes
  \<open>n\<close> reads of the scan, at most 20, between that write and the STOP write; the count
  in its result is the running total of \<open>floor (bytes / 5)\<close> over these reads, which
  are the reads the environment answers after those of the first three probes; the total
  did not exceed 10 before the last of them; and the loop stops before the 20th read only
  with a total above 10. When the START_SCAN write is refused, or the port did not open,
  no scan read is made and the result has the count 0 and no success. The same is stated
  of the scan probe on its own, in any state. A read adds at most 409 points, so the
  \<open>int\<close> that holds the total never overflows.
\<close>

theorem scan_threshold_and_attempts:
  "scan_start_success (fst (testPort p b s)) = (10 < scan_points_received (fst (testPort p b s))) \<and>
   (fst (openSerial p b s) \<and> write_accepted 2 (snd (pre_scan p b s)) \<longrightarrow>
      (\<exists>n tr k. n \<le> 20 \<and>
         trace (snd (testPort p b s)) =
           trace (snd (pre_scan p b s)) @ [Ev_write scan_cmd 2, Ev_sleep 500] @ tr
           @ [Ev_write [0xA5, 0x25] k, Ev_sleep 100, Ev_close (serial_fd (snd (openSerial p b s)))] \<and>
         length (filter is_read tr) = n \<and> \<not> list_ex is_write tr \<and>
         scan_points_received (fst (testPort p b s)) =
           running_total (w_read (env (snd (pre_scan p b s)))) n \<and>
         (\<forall>m<n. running_total (w_read (env (snd (pre_scan p b s)))) m \<le> 10) \<and>
         scan_start_success (fst (testPort p b s)) =
           (10 < running_total (w_read (env (snd (pre_scan p b s)))) n) \<and>
         (running_total (w_read (env (snd (pre_scan p b s)))) n \<le> 10 \<longrightarrow> n = 20))) \<and>
   (fst (openSerial p b s) \<and> \<not> write_accepted 2 (snd (pre_scan p b s)) \<longrightarrow>
      scan_points_received (fst (testPort p b s)) = 0 \<and>
      \<not> scan_start_success (fst (testPort p b s)) \<and>
      (\<exists>k. trace (snd (testPort p b s)) =
         trace (snd (pre_scan p b s))
         @ [Ev_write scan_cmd (write_ret (snd (pre_scan p b s))),
            Ev_write [0xA5, 0x25] k, Ev_sleep 100, Ev_close (serial_fd (snd (openSerial p b s)))])) \<and>
   (\<not> fst (openSerial p b s) \<longrightarrow>
      scan_points_received (fst (testPort p b s)) = 0 \<and>
      \<not> scan_start_success (fst (testPort p b s))) \<and>
   (\<exists>j\<le>3. w_read (env (snd (pre_scan p b s))) = drop j (w_read (env s))) \<and>
   (\<not> scan_start_success r \<and> write_accepted 2 s' \<longrightarrow>
      (\<exists>n tr. n \<le> 20 \<and>
         trace (snd (test_scan r s')) = trace s' @ [Ev_write scan_cmd 2, Ev_sleep 500] @ tr \<and>
         length (filter is_read tr) = n \<and> \<not> list_ex is_write tr \<and>
         scan_points_received (fst (test_scan r s')) = running_total (w_read (env s')) n \<and>
         (\<forall>m<n. running_total (w_read (env s')) m \<le> 10) \<and>
         scan_start_success (fst (test_scan r s')) = (10 < running_total (w_read (env s')) n) \<and>
         (running_total (w_read (env s')) n \<le> 10 \<longrightarrow> n = 20))) \<and>
   (\<not> write_accepted 2 s' \<longrightarrow>
      fst (test_scan r s') = r \<and>
      trace (snd (test_scan r s')) = trace s' @ [Ev_write scan_cmd (write_ret s')])"
  using testPort_threshold [of p b s] testPort_scan_accepted [of p b s]
    testPort_scan_refused [of p b s] testPort_not_opened [of p b s] pre_scan_reads [of p b s]
    test_scan_char [of r s'] test_scan_refused [of s' r]
  by blast

theorem scan_threshold_and_attempts_witness:
  "fst (openSerial ''/dev/ttyUSB0'' 115200 (RPLidarDiagnostic demo_world)) \<and>
   write_accepted 2 (snd (pre_scan ''/dev/ttyUSB0'' 115200 (RPLidarDiagnostic demo_world))) \<and>
   w_read (env (snd (pre_scan ''/dev/ttyUSB0'' 115200 (RPLidarDiagnostic demo_world)))) =
     [Rd_bytes (replicate 25 0), Rd_bytes (replicate 25 0), Rd_bytes (replicate 25 0)] \<and>
   scan_points_received (fst (testPort ''/dev/ttyUSB0'' 115200 (RPLidarDiagnostic demo_world))) = 15 \<and>
   scan_start_success (fst (testPort ''/dev/ttyUSB0'' 115200 (RPLidarDiagnostic demo_world))) \<and>
   fst (openSerial ''/dev/ttyUSB0'' 115200 (RPLidarDiagnostic mute_world)) \<and>
   \<not> write_accepted 2 (snd (pre_scan ''/dev/ttyUSB0'' 115200 (RPLidarDiagnostic mute_world))) \<and>
   scan_points_received (fst (testPort ''/dev/ttyUSB0'' 115200 (RPLidarDiagnostic mute_world))) = 0 \<and>
   \<not> fst (openSerial ''/dev/ttyUSB0'' 115200 (RPLidarDiagnostic silent_world)) \<and>
   scan_points_received (fst (testPort ''/dev/ttyUSB0'' 115200 (RPLidarDiagnostic silent_world))) = 0 \<and>
   \<not> scan_start_success (blank_result ''/dev/ttyUSB0'' 115200) \<and>
   write_accepted 2 (RPLidarDiagnostic scan_world) \<and>
   (\<exists>n tr. n \<le> 20 \<and>
      trace (snd (test_scan (blank_result ''/dev/ttyUSB0'' 115200) (RPLidarDiagnostic scan_world))) =
        [Ev_log_open ''rplidar_diagnostic_results.json'' True, Ev_write scan_cmd 2, Ev_sleep 500] @ tr \<and>
      length (filter is_read tr) = n \<and>
      scan_points_received (fst (test_scan (blank_result ''/dev/ttyUSB0'' 115200) (RPLidarDiagnostic scan_world))) =
        running_total (w_read (env (RPLidarDiagnostic scan_world))) n)"
proof -
  let ?P = "''/dev/ttyUSB0''"
  let ?d = "RPLidarDiagnostic demo_world" and ?m = "RPLidarDiagnostic mute_world"
  let ?q = "RPLidarDiagnostic silent_world" and ?c = "RPLidarDiagnostic scan_world"
  let ?RS = "[Rd_bytes (replicate 25 0), Rd_bytes (replicate 25 0), Rd_bytes (replicate 25 (0::byte))]"
  note thm_d = scan_threshold_and_attempts [of ?P 115200 ?d "blank_result ?P 115200" ?c]
  note thm_m = scan_threshold_and_attempts [of ?P 115200 ?m "blank_result ?P 115200" ?c]
  note thm_q = scan_threshold_and_attempts [of ?P 115200 ?q "blank_result ?P 115200" ?c]
  have od: "fst (openSerial ?P 115200 ?d)"
    by (simp add: openSerial_fst next_open_def demo_world_def)
  have om: "fst (openSerial ?P 115200 ?m)"
    by (simp add: openSerial_fst next_open_def mute_world_def)
  have oq: "\<not> fst (openSerial ?P 115200 ?q)"
    by (simp add: openSerial_fst next_open_def silent_world_def)
  have wd: "w_write (env (snd (pre_scan ?P 115200 ?d))) = [2, 2]"
    and rd: "w_read (env (snd (pre_scan ?P 115200 ?d))) = ?RS"
    by (simp_all add: pre_scan_env_accepted [where ws = "[2, 2]"] demo_world_def)
  have ad: "write_accepted 2 (snd (pre_scan ?P 115200 ?d))"
    by (simp add: write_accepted_def write_ret_def wd)
  have am: "\<not> write_accepted 2 (snd (pre_scan ?P 115200 ?m))"
    by (simp add: write_accepted_def write_ret_def pre_scan_env_refused mute_world_def)
  have rt: "running_total ?RS 0 = 0" "running_total ?RS 1 = 5" "running_total ?RS 2 = 10"
    "running_total ?RS 3 = 15"
    by (simp_all add: running_total_def heuristic_points_def bytes_received_def)
  from thm_d od ad obtain n where
    pts: "scan_points_received (fst (testPort ?P 115200 ?d)) = running_total ?RS n"
    and below: "\<forall>m<n. running_total ?RS m \<le> 10"
    and suc: "scan_start_success (fst (testPort ?P 115200 ?d)) = (10 < running_total ?RS n)"
    and full: "running_total ?RS n \<le> 10 \<longrightarrow> n = 20"
    unfolding rd by blast
  have "\<not> 3 < n" using below rt(4) by auto
  moreover have "n \<noteq> 0"
  proof
    assume "n = 0" with full rt(1) show False by simp
  qed
  moreover have "n \<noteq> 1"
  proof
    assume "n = 1" with full rt(2) show False by simp
  qed
  moreover have "n \<noteq> 2"
  proof
    assume "n = 2" with full rt(3) show False by simp
  qed
  ultimately have "n = 3" by arith
  then have d15: "scan_points_received (fst (testPort ?P 115200 ?d)) = 15"
    "scan_start_success (fst (testPort ?P 115200 ?d))"
    using pts suc rt(4) by simp_all
  have m0: "scan_points_received (fst (testPort ?P 115200 ?m)) = 0"
    using thm_m om am by blast
  have q0: "scan_points_received (fst (testPort ?P 115200 ?q)) = 0"
    using thm_q oq by blast
  have h: "\<not> scan_start_success (blank_result ?P 115200) \<and> write_accepted 2 ?c"
    by (simp add: write_accepted_def write_ret_def scan_world_def)
  from thm_d h
  have c: "\<exists>n tr. n \<le> 20 \<and>
      trace (snd (test_scan (blank_result ?P 115200) ?c)) =
        [Ev_log_open ''rplidar_diagnostic_results.json'' True, Ev_write scan_cmd 2, Ev_sleep 500] @ tr \<and>
      length (filter is_read tr) = n \<and>
      scan_points_received (fst (test_scan (blank_result ?P 115200) ?c)) =
        running_total (w_read (env ?c)) n"
    by (simp del: blank_result_simps) blast
  from od ad rd d15 om am m0 oq q0 h c show ?thesis by blast
qed

section \<open>The report\<close>

lemma count_configs_eq:
  "count_configs rs (w, p) =
     (w + of_nat (length (filter is_working rs)), p + of_nat (length (filter is_partial rs)))"
  by (induction rs arbitrary: w p) (auto simp: is_working_def is_partial_def)

lemma sint_of_nat_small: "n < 2 ^ 31 \<Longrightarrow> sint (of_nat n :: 32 word) = int n"
  by (simp add: signed_of_nat signed_take_bit_int_eq_self)

lemma finalizeLogs_content:
  assumes "is_open (log_file s)" and "length (results s) < 2 ^ 31"
  shows "content (log_file (finalizeLogs s)) =
           content (log_file s)
           @ summary_block (int (length (results s)))
               (int (length (filter is_working (results s))))
               (int (length (filter is_partial (results s))))"
proof -
  have "length (filter is_working (results s)) \<le> length (results s)"
    "length (filter is_partial (results s)) \<le> length (results s)" by simp_all
  then have "length (filter is_working (results s)) < 2 ^ 31"
    "length (filter is_partial (results s)) < 2 ^ 31" using assms(2) by linarith+
  then show ?thesis
    using assms(1)
    by (simp add: finalizeLogs_def Let_def count_configs_eq log_close_def log_put_def
        sint_of_nat_small emit_def)
qed

lemma finalizeLogs_closed: "\<not> is_open (log_file (finalizeLogs s))"
  by (simp add: finalizeLogs_def log_close_def split_beta Let_def)

lemma log_put_closed: "\<not> is_open (log_file s) \<Longrightarrow> log_put ts s = s"
  by (simp add: log_put_def)

lemma finalizeLogs_not_open:
  "\<not> is_open (log_file s) \<Longrightarrow> log_file (finalizeLogs s) = log_file s"
  by (simp add: finalizeLogs_def log_close_def log_put_def split_beta Let_def)

lemma cell_not_open:
  "\<not> is_open (log_file s) \<Longrightarrow> log_file (snd (cell p b fr s)) = log_file s"
  by (simp add: cell_def split_beta Let_def writeResultToJson_def log_put_def)

lemma baud_loop_not_open:
  "\<not> is_open (log_file s) \<Longrightarrow> log_file (snd (baud_loop p bs fr s)) = log_file s"
  by (induction bs arbitrary: fr s) (simp_all add: split_beta cell_not_open)

lemma port_loop_not_open:
  "\<not> is_open (log_file s) \<Longrightarrow> log_file (snd (port_loop ps fr s)) = log_file s"
  by (induction ps arbitrary: fr s) (simp_all add: split_beta baud_loop_not_open)

lemma runFullDiagnostic_not_open:
  "\<not> is_open (log_file s) \<Longrightarrow> log_file (runFullDiagnostic s) = log_file s"
  by (simp add: runFullDiagnostic_def Let_def split_beta port_loop_not_open)

lemma entries_append:
  "entries fr (rs @ rs') = entries fr rs @ entries (fr \<and> rs = []) rs'"
  by (induction rs arbitrary: fr) simp_all

lemma cell_log:
  assumes "is_open (log_file s)"
  shows "content (log_file (snd (cell p b fr s))) =
           content (log_file s) @ entries fr [fst (testPort p b s)]"
    and "is_open (log_file (snd (cell p b fr s)))"
  using assms by (simp_all add: cell_def split_beta Let_def writeResultToJson_def log_put_def)

lemma baud_loop_log:
  assumes "is_open (log_file s)"
  shows "\<exists>rs. results (snd (baud_loop p bs fr s)) = results s @ rs \<and>
           content (log_file (snd (baud_loop p bs fr s))) = content (log_file s) @ entries fr rs \<and>
           is_open (log_file (snd (baud_loop p bs fr s))) \<and>
           fst (baud_loop p bs fr s) = (fr \<and> rs = [])"
  using assms
proof (induction bs arbitrary: fr s)
  case Nil
  then show ?case by simp
next
  case (Cons b bs)
  let ?s' = "snd (cell p b fr s)"
  have op: "is_open (log_file ?s')" by (rule cell_log(2) [OF Cons.prems])
  from Cons.IH [OF op, of False] obtain rs where
    rs: "results (snd (baud_loop p bs False ?s')) = results ?s' @ rs"
    and ct: "content (log_file (snd (baud_loop p bs False ?s'))) = content (log_file ?s') @ entries False rs"
    and io: "is_open (log_file (snd (baud_loop p bs False ?s')))"
    and ff: "fst (baud_loop p bs False ?s') = (False \<and> rs = [])"
    by blast
  show ?case
    by (rule exI [of _ "fst (testPort p b s) # rs"])
       (use rs ct io ff in \<open>simp add: split_beta cell_log(1) [OF Cons.prems]\<close>)
qed

lemma port_loop_log:
  assumes "is_open (log_file s)"
  shows "\<exists>rs. results (snd (port_loop ps fr s)) = results s @ rs \<and>
           content (log_file (snd (port_loop ps fr s))) = content (log_file s) @ entries fr rs \<and>
           is_open (log_file (snd (port_loop ps fr s)))"
  using assms
proof (induction ps arbitrary: fr s)
  case Nil
  then show ?case by simp
next
  case (Cons p ps)
  let ?X = "baud_loop p baudrates fr s"
  from baud_loop_log [OF Cons.prems, of p baudrates fr] obtain rs where
    rs: "results (snd ?X) = results s @ rs"
    and ct: "content (log_file (snd ?X)) = content (log_file s) @ entries fr rs"
    and io: "is_open (log_file (snd ?X))" and ff: "fst ?X = (fr \<and> rs = [])"
    by blast
  from Cons.IH [OF io, of "fst ?X"] obtain rs' where
    rs': "results (snd (port_loop ps (fst ?X) (snd ?X))) = results (snd ?X) @ rs'"
    and ct': "content (log_file (snd (port_loop ps (fst ?X) (snd ?X)))) =
        content (log_file (snd ?X)) @ entries (fst ?X) rs'"
    and io': "is_open (log_file (snd (port_loop ps (fst ?X) (snd ?X))))"
    by blast
  show ?case
    by (rule exI [of _ "rs @ rs'"])
       (use rs ct ff rs' ct' io' in \<open>simp add: split_beta entries_append\<close>)
qed

lemma runFullDiagnostic_log:
  assumes "is_open (log_file s)" and "results s = []"
  shows "content (log_file (runFullDiagnostic s)) =
           content (log_file s) @ entries True (results (runFullDiagnostic s))"
    and "is_open (log_file (runFullDiagnostic s))"
proof -
  let ?s1 = "cout_put [Str ''=== RPLIDAR C++ Hardware Diagnostic ==='', endl] s"
  let ?ps = "findSerialPorts ?s1"
  let ?s2 = "cout_put ([Str ''Found ports: ''] @ concat (map (\<lambda>p. [Str p, Str '' '']) ?ps)
                               @ [endl, endl]) ?s1"
  have op: "is_open (log_file ?s2)" using assms(1) by simp
  from port_loop_log [OF op, of ?ps True] obtain rs where
    rs: "results (snd (port_loop ?ps True ?s2)) = results ?s2 @ rs"
    and ct: "content (log_file (snd (port_loop ?ps True ?s2))) = content (log_file ?s2) @ entries True rs"
    and io: "is_open (log_file (snd (port_loop ?ps True ?s2)))"
    by blast
  have run: "runFullDiagnostic s =
      (if ?ps = [] then cout_put [Str ''No serial ports found!'', endl] ?s1
       else printSummary (snd (port_loop ?ps True ?s2)))"
    by (simp add: runFullDiagnostic_def Let_def split_beta)
  show "content (log_file (runFullDiagnostic s)) =
           content (log_file s) @ entries True (results (runFullDiagnostic s))"
    unfolding run using rs ct assms by simp
  show "is_open (log_file (runFullDiagnostic s))"
    unfolding run using io assms by simp
qed

lemma main_results_bound: "length (results (main w)) \<le> 150"
proof -
  have "length (results (main w)) = length (map cell_of (results (main w)))" by simp
  also have "\<dots> = length (findSerialPorts (RPLidarDiagnostic w)) * 5"
    by (simp only: main_cells length_matrix)
  also have "\<dots> \<le> 150" using findSerialPorts_facts(2) [of "RPLidarDiagnostic w"] by simp
  finally show ?thesis .
qed

lemma main_content:
  assumes "w_log_open w"
  shows "content (log_file (main w)) = document (put_time (w_localtime w)) (results (main w))"
proof -
  let ?s = "runFullDiagnostic (RPLidarDiagnostic w)"
  have res: "results (main w) = results ?s" by (simp add: main_def destructor_def)
  have op: "is_open (log_file (closeSerial ?s))"
    using runFullDiagnostic_log(2) [of "RPLidarDiagnostic w"] assms by simp
  have ct: "content (log_file ?s) = report_header (put_time (w_localtime w)) @ entries True (results ?s)"
    using runFullDiagnostic_log(1) [of "RPLidarDiagnostic w"] assms by simp
  have "length (results (closeSerial ?s)) < 2 ^ 31"
    using main_results_bound [of w] res by simp
  from finalizeLogs_content [OF op this] show ?thesis
    by (simp add: main_def destructor_def document_def ct)
qed

lemma main_not_open:
  assumes "\<not> w_log_open w"
  shows "log_file (main w) = \<lparr>is_open = False, content = []\<rparr>"
proof -
  have "\<not> is_open (log_file (RPLidarDiagnostic w))" using assms by simp
  then have "log_file (runFullDiagnostic (RPLidarDiagnostic w)) = log_file (RPLidarDiagnostic w)"
    by (rule runFullDiagnostic_not_open)
  then show ?thesis
    using assms by (simp add: main_def destructor_def finalizeLogs_not_open)
qed

lemma partial_filter:
  "is_working = scan_start_success"
  "is_partial = (\<lambda>r. \<not> scan_start_success r \<and>
       (device_info_success r \<or> health_check_success r \<or> raw_communication r))"
  by (auto simp: is_working_def is_partial_def fun_eq_iff)

text \<open>
  C2. \<open>finalizeLogs\<close> appends the summary to an open report, and what it appends is
  written out below: after the key \<open>total_tests\<close> stands the number of results, after
  \<open>working_configurations\<close> the number of results with \<open>scan_start_success\<close>, and
  after \<open>partial_configurations\<close> the number of results without it and with one of
  the three other outcomes. The two counters are C++ \<open>int\<close>s, so the list is to have
  fewer than \<open>2^31\<close> results; a run has at most 150. A report that is not open is left
  as it is. The report of a run, when it could be opened, ends with this summary,
  computed from the results of the run.
\<close>

theorem summary_counts:
  "(is_open (log_file s) \<and> length (results s) < 2 ^ 31 \<longrightarrow>
      content (log_file (finalizeLogs s)) =
        content (log_file s) @
          [Str ([CHR 0x0A] @ ''  ],'' @ [CHR 0x0A]),
           Str (''  '' @ [CHR 0x22] @ ''summary'' @ [CHR 0x22] @ '': {'' @ [CHR 0x0A]),
           Str (''    '' @ [CHR 0x22] @ ''total_tests'' @ [CHR 0x22] @ '': ''),
           Dec (int (length (results s))), Str ('','' @ [CHR 0x0A]),
           Str (''    '' @ [CHR 0x22] @ ''working_configurations'' @ [CHR 0x22] @ '': ''),
           Dec (int (length (filter scan_start_success (results s)))), Str ('','' @ [CHR 0x0A]),
           Str (''    '' @ [CHR 0x22] @ ''partial_configurations'' @ [CHR 0x22] @ '': ''),
           Dec (int (length (filter (\<lambda>r. \<not> scan_start_success r \<and>
                  (device_info_success r \<or> health_check_success r \<or> raw_communication r))
                (results s)))),
           Str [CHR 0x0A],
           Str (''  }'' @ [CHR 0x0A]),
           Str (''}'' @ [CHR 0x0A])]) \<and>
   (\<not> is_open (log_file s) \<longrightarrow> log_file (finalizeLogs s) = log_file s) \<and>
   (w_log_open w \<longrightarrow>
      (\<exists>pre. content (log_file (main w)) =
         pre @
          [Str ([CHR 0x0A] @ ''  ],'' @ [CHR 0x0A]),
           Str (''  '' @ [CHR 0x22] @ ''summary'' @ [CHR 0x22] @ '': {'' @ [CHR 0x0A]),
           Str (''    '' @ [CHR 0x22] @ ''total_tests'' @ [CHR 0x22] @ '': ''),
           Dec (int (length (results (main w)))), Str ('','' @ [CHR 0x0A]),
           Str (''    '' @ [CHR 0x22] @ ''working_configurations'' @ [CHR 0x22] @ '': ''),
           Dec (int (length (filter scan_start_success (results (main w))))), Str ('','' @ [CHR 0x0A]),
           Str (''    '' @ [CHR 0x22] @ ''partial_configurations'' @ [CHR 0x22] @ '': ''),
           Dec (int (length (filter (\<lambda>r. \<not> scan_start_success r \<and>
                  (device_info_success r \<or> health_check_success r \<or> raw_communication r))
                (results (main w))))),
           Str [CHR 0x0A],
           Str (''  }'' @ [CHR 0x0A]),
           Str (''}'' @ [CHR 0x0A])]))"
proof -
  have a: "content (log_file (finalizeLogs s)) =
        content (log_file s) @
          [Str ([CHR 0x0A] @ ''  ],'' @ [CHR 0x0A]),
           Str (''  '' @ [CHR 0x22] @ ''summary'' @ [CHR 0x22] @ '': {'' @ [CHR 0x0A]),
           Str (''    '' @ [CHR 0x22] @ ''total_tests'' @ [CHR 0x22] @ '': ''),
           Dec (int (length (results s))), Str ('','' @ [CHR 0x0A]),
           Str (''    '' @ [CHR 0x22] @ ''working_configurations'' @ [CHR 0x22] @ '': ''),
           Dec (int (length (filter scan_start_success (results s)))), Str ('','' @ [CHR 0x0A]),
           Str (''    '' @ [CHR 0x22] @ ''partial_configurations'' @ [CHR 0x22] @ '': ''),
           Dec (int (length (filter (\<lambda>r. \<not> scan_start_success r \<and>
                  (device_info_success r \<or> health_check_success r \<or> raw_communication r))
                (results s)))),
           Str [CHR 0x0A],
           Str (''  }'' @ [CHR 0x0A]),
           Str (''}'' @ [CHR 0x0A])]"
    if "is_open (log_file s)" "length (results s) < 2 ^ 31"
    using finalizeLogs_content [OF that]
    by (simp add: summary_block_def partial_filter dq_def nl_def)
  have b: "\<exists>pre. content (log_file (main w)) =
         pre @
          [Str ([CHR 0x0A] @ ''  ],'' @ [CHR 0x0A]),
           Str (''  '' @ [CHR 0x22] @ ''summary'' @ [CHR 0x22] @ '': {'' @ [CHR 0x0A]),
           Str (''    '' @ [CHR 0x22] @ ''total_tests'' @ [CHR 0x22] @ '': ''),
           Dec (int (length (results (main w)))), Str ('','' @ [CHR 0x0A]),
           Str (''    '' @ [CHR 0x22] @ ''working_configurations'' @ [CHR 0x22] @ '': ''),
           Dec (int (length (filter scan_start_success (results (main w))))), Str ('','' @ [CHR 0x0A]),
           Str (''    '' @ [CHR 0x22] @ ''partial_configurations'' @ [CHR 0x22] @ '': ''),
           Dec (int (length (filter (\<lambda>r. \<not> scan_start_success r \<and>
                  (device_info_success r \<or> health_check_success r \<or> raw_communication r))
                (results (main w))))),
           Str [CHR 0x0A],
           Str (''  }'' @ [CHR 0x0A]),
           Str (''}'' @ [CHR 0x0A])]"
    if "w_log_open w"
    using main_content [OF that]
    by (simp add: document_def summary_block_def partial_filter dq_def nl_def)
  from a b finalizeLogs_not_open [of s] show ?thesis by blast
qed

theorem summary_counts_witness:
  "is_open (log_file ((RPLidarDiagnostic empty_world)
      \<lparr>results := [(blank_result ''a'' 1)\<lparr>scan_start_success := True, raw_communication := True\<rparr>,
                   (blank_result ''a'' 2)\<lparr>raw_communication := True\<rparr>,
                   blank_result ''a'' 3]\<rparr>)) \<and>
   content (log_file (finalizeLogs ((RPLidarDiagnostic empty_world)
      \<lparr>results := [(blank_result ''a'' 1)\<lparr>scan_start_success := True, raw_communication := True\<rparr>,
                   (blank_result ''a'' 2)\<lparr>raw_communication := True\<rparr>,
                   blank_result ''a'' 3]\<rparr>))) =
     report_header ''2024-01-01 00:00:00'' @
       [Str ([CHR 0x0A] @ ''  ],'' @ [CHR 0x0A]),
        Str (''  '' @ [CHR 0x22] @ ''summary'' @ [CHR 0x22] @ '': {'' @ [CHR 0x0A]),
        Str (''    '' @ [CHR 0x22] @ ''total_tests'' @ [CHR 0x22] @ '': ''),
        Dec 3, Str ('','' @ [CHR 0x0A]),
        Str (''    '' @ [CHR 0x22] @ ''working_configurations'' @ [CHR 0x22] @ '': ''),
        Dec 1, Str ('','' @ [CHR 0x0A]),
        Str (''    '' @ [CHR 0x22] @ ''partial_configurations'' @ [CHR 0x22] @ '': ''),
        Dec 1, Str [CHR 0x0A],
        Str (''  }'' @ [CHR 0x0A]),
        Str (''}'' @ [CHR 0x0A])] \<and>
   w_log_open empty_world \<and>
   results (main empty_world) = [] \<and>
   (\<exists>pre. content (log_file (main empty_world)) =
      pre @
       [Str ([CHR 0x0A] @ ''  ],'' @ [CHR 0x0A]),
        Str (''  '' @ [CHR 0x22] @ ''summary'' @ [CHR 0x22] @ '': {'' @ [CHR 0x0A]),
        Str (''    '' @ [CHR 0x22] @ ''total_tests'' @ [CHR 0x22] @ '': ''),
        Dec 0, Str ('','' @ [CHR 0x0A]),
        Str (''    '' @ [CHR 0x22] @ ''working_configurations'' @ [CHR 0x22] @ '': ''),
        Dec 0, Str ('','' @ [CHR 0x0A]),
        Str (''    '' @ [CHR 0x22] @ ''partial_configurations'' @ [CHR 0x22] @ '': ''),
        Dec 0, Str [CHR 0x0A],
        Str (''  }'' @ [CHR 0x0A]),
        Str (''}'' @ [CHR 0x0A])])"
proof -
  let ?s = "(RPLidarDiagnostic empty_world)
      \<lparr>results := [(blank_result ''a'' 1)\<lparr>scan_start_success := True, raw_communication := True\<rparr>,
                   (blank_result ''a'' 2)\<lparr>raw_communication := True\<rparr>,
                   blank_result ''a'' 3]\<rparr>"
  have h: "is_open (log_file ?s) \<and> length (results ?s) < 2 ^ 31" by simp
  have wt: "put_time (w_localtime empty_world) = ''2024-01-01 00:00:00''"
    by code_simp
  have none: "findSerialPorts (RPLidarDiagnostic empty_world) = []"
    by (simp add: findSerialPorts_def empty_world_def)
  have r0: "results (main empty_world) = []"
    using arg_cong [OF main_cells [of empty_world], of length] by (simp add: none matrix_def)
  show ?thesis
    using h summary_counts [of ?s empty_world]
    by (simp add: wt r0)
qed

subsection \<open>The events of a run that touch the report\<close>

lemma probe_not_log: "is_probe_ev e \<Longrightarrow> \<not> is_log_ev e"
  by (cases e) (simp_all add: is_probe_ev_def is_log_ev_def)

lemma list_all_probe_not_log: "list_all is_probe_ev tr \<Longrightarrow> list_all (\<lambda>e. \<not> is_log_ev e) tr"
  by (induction tr) (simp_all add: probe_not_log)

lemma is_log_ev_simps [simp]:
  "\<not> is_log_ev (Ev_open p r)" "\<not> is_log_ev (Ev_configure b)" "\<not> is_log_ev (Ev_close fd)"
  "\<not> is_log_ev (Ev_write d k)" "\<not> is_log_ev (Ev_read m t)" "\<not> is_log_ev (Ev_sleep n)"
  "is_log_ev (Ev_log_open f ok)" "is_log_ev Ev_finalize" "is_log_ev Ev_log_close"
  by (simp_all add: is_log_ev_def)

lemma closeSerial_no_log: "extends_by (\<lambda>e. \<not> is_log_ev e) s (closeSerial s)"
  by (rule extends_byI [OF closeSerial_trace]) simp

lemma openSerial_no_log: "extends_by (\<lambda>e. \<not> is_log_ev e) s (snd (openSerial p b s))"
proof -
  have "extends_by (\<lambda>e. \<not> is_log_ev e) (closeSerial s) (snd (openSerial p b s))"
    by (rule extends_byI [OF openSerial_trace]) simp
  with closeSerial_no_log show ?thesis by (rule extends_by_trans)
qed

lemma testPort_no_log: "extends_by (\<lambda>e. \<not> is_log_ev e) s (snd (testPort p b s))"
proof (cases "fst (openSerial p b s)")
  case False
  have "extends_by (\<lambda>e. \<not> is_log_ev e) (closeSerial s) (snd (testPort p b s))"
    by (rule extends_byI [OF testPort_fail_trace [OF False]]) simp
  with closeSerial_no_log show ?thesis by (rule extends_by_trans)
next
  case True
  from testPort_ok_trace [OF True] obtain tr k where
    pr: "list_all is_probe_ev tr" and
    tr: "trace (snd (testPort p b s)) =
           trace (snd (openSerial p b s)) @ tr
           @ [Ev_write [0xA5, 0x25] k, Ev_sleep 100, Ev_close (serial_fd (snd (openSerial p b s)))]"
    by blast
  have "extends_by (\<lambda>e. \<not> is_log_ev e) (snd (openSerial p b s)) (snd (testPort p b s))"
    by (rule extends_byI [OF tr]) (simp add: list_all_probe_not_log [OF pr])
  with openSerial_no_log show ?thesis by (rule extends_by_trans)
qed

lemma cell_no_log: "extends_by (\<lambda>e. \<not> is_log_ev e) s (snd (cell p b fr s))"
  using testPort_no_log [of s p b] by (simp add: extends_by_def)

lemma baud_loop_no_log: "extends_by (\<lambda>e. \<not> is_log_ev e) s (snd (baud_loop p bs fr s))"
proof (induction bs arbitrary: fr s)
  case Nil
  show ?case by simp
next
  case (Cons b bs)
  from cell_no_log Cons [where fr = False and s = "snd (cell p b fr s)"] show ?case
    by (simp add: split_beta) (rule extends_by_trans)
qed

lemma port_loop_no_log: "extends_by (\<lambda>e. \<not> is_log_ev e) s (snd (port_loop ps fr s))"
proof (induction ps arbitrary: fr s)
  case Nil
  show ?case by simp
next
  case (Cons p ps)
  from baud_loop_no_log
    Cons [where fr = "fst (baud_loop p baudrates fr s)" and s = "snd (baud_loop p baudrates fr s)"]
  show ?case
    by (simp add: split_beta) (rule extends_by_trans)
qed

lemma runFullDiagnostic_no_log: "extends_by (\<lambda>e. \<not> is_log_ev e) s (runFullDiagnostic s)"
proof -
  have "extends_by (\<lambda>e. \<not> is_log_ev e) (cout_put ts' (cout_put ts s))
      (snd (port_loop ps True (cout_put ts' (cout_put ts s))))" for ts ts' ps
    by (rule port_loop_no_log)
  then have "extends_by (\<lambda>e. \<not> is_log_ev e) s
      (printSummary (snd (port_loop ps True (cout_put ts' (cout_put ts s)))))" for ts ts' ps
    by (simp add: extends_by_def)
  then show ?thesis
    by (simp add: runFullDiagnostic_def Let_def split_beta extends_by_same)
qed

lemma runFullDiagnostic_none:
  assumes "findSerialPorts s = []"
  shows "results (runFullDiagnostic s) = results s" "trace (runFullDiagnostic s) = trace s"
    "serial_fd (runFullDiagnostic s) = serial_fd s"
  using assms by (simp_all add: runFullDiagnostic_def Let_def findSerialPorts_facts)

lemma runFullDiagnostic_is_open:
  "is_open (log_file (runFullDiagnostic s)) = is_open (log_file s)"
proof (cases "is_open (log_file s)")
  case True
  let ?s1 = "cout_put [Str ''=== RPLIDAR C++ Hardware Diagnostic ==='', endl] s"
  let ?ps = "findSerialPorts ?s1"
  let ?s2 = "cout_put ([Str ''Found ports: ''] @ concat (map (\<lambda>p. [Str p, Str '' '']) ?ps)
                               @ [endl, endl]) ?s1"
  have op: "is_open (log_file ?s2)" using True by simp
  from port_loop_log [OF op, of ?ps True]
  have "is_open (log_file (snd (port_loop ?ps True ?s2)))" by blast
  then show ?thesis
    using True by (simp add: runFullDiagnostic_def Let_def split_beta)
next
  case False
  then show ?thesis by (simp add: runFullDiagnostic_not_open)
qed

lemma main_trace:
  "\<exists>tr. trace (main w) =
          Ev_log_open ''rplidar_diagnostic_results.json'' (w_log_open w) # tr
          @ Ev_finalize # (if w_log_open w then [Ev_log_close] else []) \<and>
        list_all (\<lambda>e. \<not> is_log_ev e) tr"
proof -
  let ?s = "runFullDiagnostic (RPLidarDiagnostic w)"
  have "extends_by (\<lambda>e. \<not> is_log_ev e) (RPLidarDiagnostic w) (closeSerial ?s)"
    using runFullDiagnostic_no_log closeSerial_no_log by (rule extends_by_trans)
  then obtain tr where tr: "trace (closeSerial ?s) = trace (RPLidarDiagnostic w) @ tr"
    and nl: "list_all (\<lambda>e. \<not> is_log_ev e) tr"
    by (auto simp: extends_by_def)
  have op: "is_open (log_file (closeSerial ?s)) = w_log_open w"
    by (simp add: runFullDiagnostic_is_open)
  have "trace (main w) =
          Ev_log_open ''rplidar_diagnostic_results.json'' (w_log_open w) # tr
          @ Ev_finalize # (if w_log_open w then [Ev_log_close] else [])"
    using op tr by (simp add: main_def destructor_def finalizeLogs_trace)
  with nl show ?thesis by blast
qed

lemma filter_finalize_none:
  "list_all (\<lambda>e. \<not> is_log_ev e) tr \<Longrightarrow> filter (\<lambda>e. e = Ev_finalize) tr = []"
  by (auto simp: filter_empty_conv list_all_iff)

lemma main_finalize_once: "length (filter (\<lambda>e. e = Ev_finalize) (trace (main w))) = 1"
proof -
  from main_trace [of w] obtain tr where
    tr: "trace (main w) =
          Ev_log_open ''rplidar_diagnostic_results.json'' (w_log_open w) # tr
          @ Ev_finalize # (if w_log_open w then [Ev_log_close] else [])"
    and nl: "list_all (\<lambda>e. \<not> is_log_ev e) tr"
    by blast
  show ?thesis
    unfolding tr by (simp add: filter_finalize_none [OF nl])
qed

subsection \<open>The report is a JSON document\<close>

lemma symbols_simps [simp]:
  "symbols [] = []" "symbols (t # ts) = syms_of t @ symbols ts"
  "symbols (ts @ ts') = symbols ts @ symbols ts'"
  by (simp_all add: symbols_def)

lemma run_plain:
  "plain_text s \<Longrightarrow> foldl jstep (In_str k, stk) (map Ch s) = (In_str k, stk)"
  by (induction s) (auto simp: plain_text_def jstep_def plain_char_def)

lemmas jeval = jstep_def Let_def is_ws_def start_value_def close_frame_def after_value_def
  plain_char_def dq_def nl_def

lemma run_bool:
  "foldl jstep (Value, f # stk) (map Ch (bool_str v)) = (After, f # stk)"
  by (simp add: jeval bool_str_def)

lemma header_run:
  assumes "plain_text ts"
  shows "foldl jstep (Value, []) (symbols (report_header ts)) = (First_item, [Arr, Obj])"
  using assms by (simp add: report_header_def jeval run_plain)

lemma summary_run:
  "foldl jstep (First_item, [Arr, Obj]) (symbols (summary_block a b c)) = (Done, [])"
  "foldl jstep (After, [Arr, Obj]) (symbols (summary_block a b c)) = (Done, [])"
  by (simp_all add: summary_block_def jeval)

lemma entry_run:
  assumes "plain_text (port r)" and "plain_text (error_message r)"
  shows "foldl jstep (First_item, Arr # stk) (symbols (json_entry r)) = (After, Arr # stk)"
    and "foldl jstep (Value, Arr # stk) (symbols (json_entry r)) = (After, Arr # stk)"
  using assms by (simp_all add: json_entry_def jeval run_plain run_bool)

lemma entries_run:
  assumes "list_all (\<lambda>r. plain_text (port r) \<and> plain_text (error_message r)) rs"
  shows "foldl jstep (if fr then First_item else After, Arr # stk) (symbols (entries fr rs)) =
           (if fr \<and> rs = [] then First_item else After, Arr # stk)"
  using assms
proof (induction rs arbitrary: fr)
  case Nil
  then show ?case by simp
next
  case (Cons r rs)
  then have p: "plain_text (port r)" "plain_text (error_message r)"
    and rest: "list_all (\<lambda>r. plain_text (port r) \<and> plain_text (error_message r)) rs"
    by simp_all
  have ih: "foldl jstep (After, Arr # stk) (symbols (entries False rs)) = (After, Arr # stk)"
    using Cons.IH [OF rest, of False] by simp
  have sep: "foldl jstep (After, Arr # stk) (symbols [Str ('','' @ nl)]) = (Value, Arr # stk)"
    by (simp add: jeval)
  show ?case
  proof (cases fr)
    case True
    have "foldl jstep (First_item, Arr # stk) (symbols (entries True (r # rs))) =
        foldl jstep (foldl jstep (First_item, Arr # stk) (symbols (json_entry r)))
          (symbols (entries False rs))"
      by simp
    also have "\<dots> = (After, Arr # stk)"
      by (simp only: entry_run(1) [OF p] ih)
    finally show ?thesis using True by simp
  next
    case False
    have "symbols (entries False (r # rs)) =
        symbols [Str ('','' @ nl)] @ symbols (json_entry r) @ symbols (entries False rs)"
      by simp
    then have "foldl jstep (After, Arr # stk) (symbols (entries False (r # rs))) =
        foldl jstep (foldl jstep (foldl jstep (After, Arr # stk) (symbols [Str ('','' @ nl)]))
          (symbols (json_entry r))) (symbols (entries False rs))"
      by (simp only: foldl_append)
    also have "\<dots> = (After, Arr # stk)"
      by (simp only: sep entry_run(2) [OF p] ih)
    finally show ?thesis using False by simp
  qed
qed

lemma document_valid:
  assumes "plain_text ts"
    and "list_all (\<lambda>r. plain_text (port r) \<and> plain_text (error_message r)) rs"
  shows "json_valid (symbols (document ts rs))"
proof -
  have "foldl jstep (Value, []) (symbols (document ts rs)) = (Done, [])"
    using entries_run [OF assms(2), of True "[Obj]"]
    by (cases "rs = []") (simp_all add: document_def header_run [OF assms(1)] summary_run)
  then show ?thesis by (simp add: json_valid_def)
qed

subsection \<open>What the report is made of is plain text\<close>

lemma plain_digits: "\<forall>n\<in>set [0..<10]. plain_char (digit_char n)"
  by code_simp

lemma plain_digit: "n < 10 \<Longrightarrow> plain_char (digit_char n)"
  using plain_digits by (simp del: digit_char.simps)

lemma plain_text_append [simp]: "plain_text (xs @ ys) = (plain_text xs \<and> plain_text ys)"
  by (simp add: plain_text_def)

lemma plain_to_string: "plain_text (to_string n)"
proof (induction n rule: to_string.induct)
  case (1 n)
  show ?case
  proof (cases "n < 10")
    case True
    then show ?thesis
      by (subst to_string.simps) (simp add: plain_text_def plain_digit del: digit_char.simps)
  next
    case False
    have "n mod 10 < 10" by simp
    then have "plain_char (digit_char (n mod 10))" by (rule plain_digit)
    with False 1 show ?thesis
      by (subst to_string.simps) (simp add: plain_text_def del: digit_char.simps)
  qed
qed

lemma plain_text_Cons: "plain_text (c # xs) = (plain_char c \<and> plain_text xs)"
  by (simp add: plain_text_def)

lemma plain_separators:
  "plain_char CHR ''0''" "plain_char CHR ''-''" "plain_char CHR '' ''" "plain_char CHR '':''"
  by code_simp+

lemma plain_two_digits: "plain_text (two_digits n)"
  by (simp add: two_digits_def plain_to_string plain_separators plain_text_Cons)

lemma plain_put_time: "plain_text (put_time t)"
  by (simp add: put_time_def plain_to_string plain_two_digits plain_separators plain_text_Cons)

lemma plain_candidate_ports: "list_all plain_text candidate_ports"
  by code_simp

lemma plain_findSerialPorts: "list_all plain_text (findSerialPorts s)"
  using plain_candidate_ports by (simp add: findSerialPorts_def list_all_iff)

lemma plain_failed: "plain_text ''Failed to open serial port''" "plain_text []"
  by code_simp+

lemma testPort_plain:
  "plain_text p \<Longrightarrow>
   plain_text (port (fst (testPort p b s))) \<and> plain_text (error_message (fst (testPort p b s)))"
  by (cases "fst (openSerial p b s)") (simp_all add: testPort_ok testPort_fail plain_failed)

lemma baud_loop_plain:
  assumes "plain_text p"
  shows "list_all (\<lambda>r. plain_text (port r) \<and> plain_text (error_message r)) (results s) \<Longrightarrow>
    list_all (\<lambda>r. plain_text (port r) \<and> plain_text (error_message r))
      (results (snd (baud_loop p bs fr s)))"
proof (induction bs arbitrary: fr s)
  case Nil
  then show ?case by simp
next
  case (Cons b bs)
  have "list_all (\<lambda>r. plain_text (port r) \<and> plain_text (error_message r))
          (results (snd (cell p b fr s)))"
    using Cons.prems testPort_plain [OF assms, of b s] by simp
  from Cons.IH [OF this] show ?case by (simp add: split_beta)
qed

lemma port_loop_plain:
  "list_all plain_text ps \<Longrightarrow>
   list_all (\<lambda>r. plain_text (port r) \<and> plain_text (error_message r)) (results s) \<Longrightarrow>
   list_all (\<lambda>r. plain_text (port r) \<and> plain_text (error_message r))
     (results (snd (port_loop ps fr s)))"
proof (induction ps arbitrary: fr s)
  case Nil
  then show ?case by simp
next
  case (Cons p ps)
  from Cons.prems have p: "plain_text p" and ps: "list_all plain_text ps" by simp_all
  from Cons.IH [OF ps baud_loop_plain [OF p Cons.prems(2)]] show ?case by (simp add: split_beta)
qed

lemma main_plain:
  "list_all (\<lambda>r. plain_text (port r) \<and> plain_text (error_message r)) (results (main w))"
proof -
  let ?s1 = "cout_put [Str ''=== RPLIDAR C++ Hardware Diagnostic ==='', endl] (RPLidarDiagnostic w)"
  let ?ps = "findSerialPorts ?s1"
  let ?s2 = "cout_put ([Str ''Found ports: ''] @ concat (map (\<lambda>p. [Str p, Str '' '']) ?ps)
                               @ [endl, endl]) ?s1"
  have "list_all (\<lambda>r. plain_text (port r) \<and> plain_text (error_message r)) (results ?s2)" by simp
  from port_loop_plain [OF plain_findSerialPorts this, of ?s1 True] show ?thesis
    by (simp add: main_def destructor_def runFullDiagnostic_def Let_def split_beta)
qed

lemma main_valid:
  assumes "w_log_open w"
  shows "json_valid (symbols (content (log_file (main w))))"
  using document_valid [OF plain_put_time main_plain] main_content [OF assms] by simp

lemma not_valid_empty: "\<not> json_valid []"
  by (simp add: json_valid_def)

lemma main_none:
  assumes "findSerialPorts (RPLidarDiagnostic w) = []"
  shows "results (main w) = []"
    "trace (main w) =
       Ev_log_open ''rplidar_diagnostic_results.json'' (w_log_open w) # Ev_finalize
       # (if w_log_open w then [Ev_log_close] else [])"
proof -
  let ?s = "runFullDiagnostic (RPLidarDiagnostic w)"
  have r: "results ?s = []" and t: "trace ?s = trace (RPLidarDiagnostic w)"
    and f: "serial_fd ?s = - 1"
    using runFullDiagnostic_none [OF assms] by simp_all
  have c: "closeSerial ?s = ?s" using f by (simp add: closeSerial_def)
  show "results (main w) = []" using r by (simp add: main_def destructor_def)
  have op: "is_open (log_file ?s) = w_log_open w" by (simp add: runFullDiagnostic_is_open)
  show "trace (main w) =
       Ev_log_open ''rplidar_diagnostic_results.json'' (w_log_open w) # Ev_finalize
       # (if w_log_open w then [Ev_log_close] else [])"
    by (simp add: main_def destructor_def c finalizeLogs_trace t op)
qed

subsection \<open>The report at the end of a run\<close>

lemma header_not_valid: "plain_text ts \<Longrightarrow> \<not> json_valid (symbols (report_header ts))"
  by (simp add: json_valid_def header_run)

text \<open>
  C7. A run calls \<open>finalizeLogs\<close> exactly once, whether the matrix was completed or no
  port was discovered: the events of a run are the opening of the report, events that do
  not touch the report, the one call of \<open>finalizeLogs\<close> and, when the report was open,
  its closing as the last event. The report is closed at the end. When the report file
  could be opened, the report is then a JSON document (\<open>json_valid\<close>): the header with
  the time stamp, the entries of the results, the summary. When no port is discovered,
  there is no result, no port is opened and nothing is written to or read from one, and
  the report that could be opened is the text spelled out below, with an empty
  \<open>test_results\<close> array and the three counts 0. The constructor does not look at the
  outcome of opening the report file: when it failed, nothing is written, and the empty
  report is not a JSON document.
\<close>

theorem report_finalized_once:
  "length (filter (\<lambda>e. e = Ev_finalize) (trace (main w))) = 1 \<and>
   (\<exists>tr. trace (main w) =
           Ev_log_open ''rplidar_diagnostic_results.json'' (w_log_open w) # tr
           @ Ev_finalize # (if w_log_open w then [Ev_log_close] else []) \<and>
         list_all (\<lambda>e. \<not> is_log_ev e) tr) \<and>
   \<not> is_open (log_file (main w)) \<and>
   (w_log_open w \<longrightarrow>
      json_valid (symbols (content (log_file (main w)))) \<and>
      content (log_file (main w)) = document (put_time (w_localtime w)) (results (main w))) \<and>
   (\<not> w_log_open w \<longrightarrow>
      content (log_file (main w)) = [] \<and>
      \<not> json_valid (symbols (content (log_file (main w))))) \<and>
   (findSerialPorts (RPLidarDiagnostic w) = [] \<longrightarrow>
      results (main w) = [] \<and>
      trace (main w) =
        Ev_log_open ''rplidar_diagnostic_results.json'' (w_log_open w) # Ev_finalize
        # (if w_log_open w then [Ev_log_close] else []) \<and>
      (w_log_open w \<longrightarrow>
         content (log_file (main w)) =
           [Str (''{'' @ [CHR 0x0A] @ ''  '' @ [CHR 0x22] @ ''timestamp'' @ [CHR 0x22] @ '': ''
                 @ [CHR 0x22]),
            Str (put_time (w_localtime w)),
            Str ([CHR 0x22] @ '','' @ [CHR 0x0A]),
            Str (''  '' @ [CHR 0x22] @ ''test_results'' @ [CHR 0x22] @ '': ['' @ [CHR 0x0A]),
            Str ([CHR 0x0A] @ ''  ],'' @ [CHR 0x0A]),
            Str (''  '' @ [CHR 0x22] @ ''summary'' @ [CHR 0x22] @ '': {'' @ [CHR 0x0A]),
            Str (''    '' @ [CHR 0x22] @ ''total_tests'' @ [CHR 0x22] @ '': ''),
            Dec 0, Str ('','' @ [CHR 0x0A]),
            Str (''    '' @ [CHR 0x22] @ ''working_configurations'' @ [CHR 0x22] @ '': ''),
            Dec 0, Str ('','' @ [CHR 0x0A]),
            Str (''    '' @ [CHR 0x22] @ ''partial_configurations'' @ [CHR 0x22] @ '': ''),
            Dec 0, Str [CHR 0x0A],
            Str (''  }'' @ [CHR 0x0A]),
            Str (''}'' @ [CHR 0x0A])]))"
proof -
  have closed: "\<not> is_open (log_file (main w))"
    by (simp add: main_def destructor_def finalizeLogs_closed)
  have shut: "content (log_file (main w)) = [] \<and>
      \<not> json_valid (symbols (content (log_file (main w))))" if "\<not> w_log_open w"
    using main_not_open [OF that] by (simp add: not_valid_empty)
  have zero: "content (log_file (main w)) =
           [Str (''{'' @ [CHR 0x0A] @ ''  '' @ [CHR 0x22] @ ''timestamp'' @ [CHR 0x22] @ '': ''
                 @ [CHR 0x22]),
            Str (put_time (w_localtime w)),
            Str ([CHR 0x22] @ '','' @ [CHR 0x0A]),
            Str (''  '' @ [CHR 0x22] @ ''test_results'' @ [CHR 0x22] @ '': ['' @ [CHR 0x0A]),
            Str ([CHR 0x0A] @ ''  ],'' @ [CHR 0x0A]),
            Str (''  '' @ [CHR 0x22] @ ''summary'' @ [CHR 0x22] @ '': {'' @ [CHR 0x0A]),
            Str (''    '' @ [CHR 0x22] @ ''total_tests'' @ [CHR 0x22] @ '': ''),
            Dec 0, Str ('','' @ [CHR 0x0A]),
            Str (''    '' @ [CHR 0x22] @ ''working_configurations'' @ [CHR 0x22] @ '': ''),
            Dec 0, Str ('','' @ [CHR 0x0A]),
            Str (''    '' @ [CHR 0x22] @ ''partial_configurations'' @ [CHR 0x22] @ '': ''),
            Dec 0, Str [CHR 0x0A],
            Str (''  }'' @ [CHR 0x0A]),
            Str (''}'' @ [CHR 0x0A])]"
    if "findSerialPorts (RPLidarDiagnostic w) = []" "w_log_open w"
    using main_content [OF that(2)] main_none(1) [OF that(1)]
    by (simp add: document_def report_header_def summary_block_def dq_def nl_def)
  from main_finalize_once [of w] main_trace [of w] closed main_valid [of w] main_content [of w]
    shut main_none [of w] zero
  show ?thesis by blast
qed

theorem report_finalized_once_witness:
  "w_log_open empty_world \<and> findSerialPorts (RPLidarDiagnostic empty_world) = [] \<and>
   results (main empty_world) = [] \<and>
   trace (main empty_world) =
     [Ev_log_open ''rplidar_diagnostic_results.json'' True, Ev_finalize, Ev_log_close] \<and>
   json_valid (symbols (content (log_file (main empty_world)))) \<and>
   content (log_file (main empty_world)) =
     [Str (''{'' @ [CHR 0x0A] @ ''  '' @ [CHR 0x22] @ ''timestamp'' @ [CHR 0x22] @ '': ''
           @ [CHR 0x22]),
      Str ''2024-01-01 00:00:00'',
      Str ([CHR 0x22] @ '','' @ [CHR 0x0A]),
      Str (''  '' @ [CHR 0x22] @ ''test_results'' @ [CHR 0x22] @ '': ['' @ [CHR 0x0A]),
      Str ([CHR 0x0A] @ ''  ],'' @ [CHR 0x0A]),
      Str (''  '' @ [CHR 0x22] @ ''summary'' @ [CHR 0x22] @ '': {'' @ [CHR 0x0A]),
      Str (''    '' @ [CHR 0x22] @ ''total_tests'' @ [CHR 0x22] @ '': ''),
      Dec 0, Str ('','' @ [CHR 0x0A]),
      Str (''    '' @ [CHR 0x22] @ ''working_configurations'' @ [CHR 0x22] @ '': ''),
      Dec 0, Str ('','' @ [CHR 0x0A]),
      Str (''    '' @ [CHR 0x22] @ ''partial_configurations'' @ [CHR 0x22] @ '': ''),
      Dec 0, Str [CHR 0x0A],
      Str (''  }'' @ [CHR 0x0A]),
      Str (''}'' @ [CHR 0x0A])] \<and>
   w_log_open demo_world \<and>
   json_valid (symbols (content (log_file (main demo_world)))) \<and>
   length (filter (\<lambda>e. e = Ev_finalize) (trace (main demo_world))) = 1 \<and>
   \<not> w_log_open locked_world \<and>
   content (log_file (main locked_world)) = []"
proof -
  have wt: "put_time (w_localtime empty_world) = ''2024-01-01 00:00:00''"
    by code_simp
  have none: "findSerialPorts (RPLidarDiagnostic empty_world) = []"
    by (simp add: findSerialPorts_def empty_world_def)
  have op: "w_log_open empty_world" "w_log_open demo_world" by simp_all
  have lk: "\<not> w_log_open locked_world" by (simp add: locked_world_def)
  let ?zero = "\<lambda>w.
     [Str (''{'' @ [CHR 0x0A] @ ''  '' @ [CHR 0x22] @ ''timestamp'' @ [CHR 0x22] @ '': ''
           @ [CHR 0x22]),
      Str (put_time (w_localtime w)),
      Str ([CHR 0x22] @ '','' @ [CHR 0x0A]),
      Str (''  '' @ [CHR 0x22] @ ''test_results'' @ [CHR 0x22] @ '': ['' @ [CHR 0x0A]),
      Str ([CHR 0x0A] @ ''  ],'' @ [CHR 0x0A]),
      Str (''  '' @ [CHR 0x22] @ ''summary'' @ [CHR 0x22] @ '': {'' @ [CHR 0x0A]),
      Str (''    '' @ [CHR 0x22] @ ''total_tests'' @ [CHR 0x22] @ '': ''),
      Dec 0, Str ('','' @ [CHR 0x0A]),
      Str (''    '' @ [CHR 0x22] @ ''working_configurations'' @ [CHR 0x22] @ '': ''),
      Dec 0, Str ('','' @ [CHR 0x0A]),
      Str (''    '' @ [CHR 0x22] @ ''partial_configurations'' @ [CHR 0x22] @ '': ''),
      Dec 0, Str [CHR 0x0A],
      Str (''  }'' @ [CHR 0x0A]),
      Str (''}'' @ [CHR 0x0A])]"
  note e = report_finalized_once [of empty_world]
  from e op(1) have e1: "json_valid (symbols (content (log_file (main empty_world))))"
    by blast
  from e none have e2: "results (main empty_world) = []" by blast
  from e none have e3: "trace (main empty_world) =
        Ev_log_open ''rplidar_diagnostic_results.json'' (w_log_open empty_world) # Ev_finalize
        # (if w_log_open empty_world then [Ev_log_close] else [])" by blast
  from e none op(1) have e4: "content (log_file (main empty_world)) = ?zero empty_world"
    by blast
  note d = report_finalized_once [of demo_world]
  from d op(2) have d1: "json_valid (symbols (content (log_file (main demo_world))))"
    by blast
  from d have d2: "length (filter (\<lambda>e. e = Ev_finalize) (trace (main demo_world))) = 1"
    by blast
  from report_finalized_once [of locked_world] lk
  have l1: "content (log_file (main locked_world)) = []" by blast
  show ?thesis
    using none lk e1 e2 e3 e4 d1 d2 l1 by (simp add: wt)
qed

text \<open>
  On the machine of \<open>locked_world\<close> the run ends after one call of \<open>finalizeLogs\<close>
  with an empty report: no \<open>test_results\<close>, no summary, not a JSON document.
\<close>

theorem report_not_written_when_not_opened:
  "findSerialPorts (RPLidarDiagnostic locked_world) = [] \<and>
   trace (main locked_world) =
     [Ev_log_open ''rplidar_diagnostic_results.json'' False, Ev_finalize] \<and>
   content (log_file (main locked_world)) = [] \<and>
   \<not> json_valid (symbols (content (log_file (main locked_world))))"
proof -
  have none: "findSerialPorts (RPLidarDiagnostic locked_world) = []"
    by (simp add: findSerialPorts_def locked_world_def)
  have lk: "\<not> w_log_open locked_world" by (simp add: locked_world_def)
  show ?thesis
    using none main_none(2) [OF none] main_not_open [OF lk] lk
    by (simp add: not_valid_empty)
qed

end
